theory Spec2Isabelle
  imports Main
begin

section \<open>JavaScript values and runtime operations\<close>

text \<open>
  The program is untyped JavaScript: a Result is a plain object, tested with
  truthiness (\<open>if (result.error)\<close>, \<open>a || b\<close>) and extended by assignment
  (\<open>result.messages = [...]\<close>). Values are therefore modelled as they are at run
  time. An object is the list of its own properties in insertion order. Numbers are the
  integers (exit codes and lengths are the only numbers the program handles). \<open>JFn\<close> is
  an opaque function value; it only arises as an inherited member of \<open>Object.prototype\<close>.
\<close>

datatype jsval =
    JUndefined
  | JNull
  | JBool bool
  | JNum int
  | JStr string
  | JArr "jsval list"
  | JObj "(string \<times> jsval) list"
  | JFn string

text \<open>A thrown \<open>Error\<close>: its \<open>message\<close> and its \<open>stack\<close> text.\<close>

datatype exn = Error (emessage: string) (estack: string)

definition TypeError :: "string \<Rightarrow> exn" where
  "TypeError m = Error m (''TypeError: '' @ m)"

text \<open>
  The outcome of evaluating a function body, or of awaiting a promise: a value, an
  exception (a rejected promise), or no outcome at all (a promise that stays pending).
\<close>

datatype 'a comp = Val 'a | Exn exn | Hang

text \<open>
  What a call of a promise-returning collaborator yields at the call site: the call throws
  before any promise exists, or it hands back a promise. Only \<open>f(x).catch(h)\<close> tells the
  two apart; under \<open>await f(x)\<close> inside an async function both reject that function.
\<close>

datatype 'a call = Threw exn | Promise "'a comp"

fun truthy :: "jsval \<Rightarrow> bool" where
  "truthy JUndefined = False"
| "truthy JNull = False"
| "truthy (JBool b) = b"
| "truthy (JNum n) = (n \<noteq> 0)"
| "truthy (JStr s) = (s \<noteq> [])"
| "truthy (JArr xs) = True"
| "truthy (JObj ps) = True"
| "truthy (JFn f) = True"

text \<open>\<open>a || b\<close> on values.\<close>

definition js_or :: "jsval \<Rightarrow> jsval \<Rightarrow> jsval" where
  "js_or a b = (if truthy a then a else b)"

text \<open>\<open>typeof v\<close>.\<close>

fun typeof :: "jsval \<Rightarrow> string" where
  "typeof JUndefined = ''undefined''"
| "typeof JNull = ''object''"
| "typeof (JBool b) = ''boolean''"
| "typeof (JNum n) = ''number''"
| "typeof (JStr s) = ''string''"
| "typeof (JArr xs) = ''object''"
| "typeof (JObj ps) = ''object''"
| "typeof (JFn f) = ''function''"

text \<open>
  The members every plain object inherits from \<open>Object.prototype\<close>. A lookup
  \<open>obj[key]\<close> with such a key and no own property of that name yields the inherited
  member, not \<open>undefined\<close>.
\<close>

definition object_prototype :: "string list" where
  "object_prototype =
     [''constructor'', ''__proto__'', ''hasOwnProperty'', ''isPrototypeOf'',
      ''propertyIsEnumerable'', ''toLocaleString'', ''toString'', ''valueOf'',
      ''__defineGetter__'', ''__defineSetter__'', ''__lookupGetter__'',
      ''__lookupSetter__'']"

definition inherited :: "string \<Rightarrow> jsval" where
  "inherited k =
     (if k = ''__proto__'' then JObj []
      else if k \<in> set object_prototype then JFn k
      else JUndefined)"

text \<open>
  \<open>v.k\<close> and \<open>v[k]\<close>: reading a property of \<open>undefined\<close> or \<open>null\<close> throws a
  TypeError; a string and an array have a \<open>length\<close>; an object has its own properties
  and the inherited ones. (The methods of strings, arrays and functions are never read
  by the program and are left out.)
\<close>

fun get_prop :: "jsval \<Rightarrow> string \<Rightarrow> exn + jsval" where
  "get_prop JUndefined k =
     Inl (TypeError (''Cannot read properties of undefined (reading '' @ k @ '')''))"
| "get_prop JNull k =
     Inl (TypeError (''Cannot read properties of null (reading '' @ k @ '')''))"
| "get_prop (JStr s) k = Inr (if k = ''length'' then JNum (int (length s)) else JUndefined)"
| "get_prop (JArr xs) k = Inr (if k = ''length'' then JNum (int (length xs)) else JUndefined)"
| "get_prop (JObj ps) k = Inr (case map_of ps k of Some v \<Rightarrow> v | None \<Rightarrow> inherited k)"
| "get_prop v k = Inr JUndefined"

text \<open>\<open>v?.k\<close>: optional chaining yields \<open>undefined\<close> on \<open>undefined\<close> and \<open>null\<close>.\<close>

definition get_opt :: "jsval \<Rightarrow> string \<Rightarrow> jsval" where
  "get_opt v k = (case get_prop v k of Inl e \<Rightarrow> JUndefined | Inr x \<Rightarrow> x)"

text \<open>
  \<open>obj.k = v\<close> on an object: an existing own property keeps its place, a new one is
  added last.
\<close>

fun assign :: "(string \<times> jsval) list \<Rightarrow> string \<Rightarrow> jsval \<Rightarrow> (string \<times> jsval) list" where
  "assign [] k v = [(k, v)]"
| "assign (p # ps) k v = (if fst p = k then (k, v) # ps else p # assign ps k v)"

text \<open>
  The modules are ES modules, hence strict code: assigning a property to \<open>undefined\<close>,
  \<open>null\<close> or a primitive throws. (Arrays and functions carry no named properties in
  this model; the program never assigns to one.)
\<close>

fun set_prop :: "jsval \<Rightarrow> string \<Rightarrow> jsval \<Rightarrow> exn + jsval" where
  "set_prop (JObj ps) k v = Inr (JObj (assign ps k v))"
| "set_prop w k v = Inl (TypeError (''Cannot create property '' @ k))"

text \<open>Decimal digits of a number, for template literals.\<close>

fun digits :: "nat \<Rightarrow> nat \<Rightarrow> string" where
  "digits 0 n = []"
| "digits (Suc fuel) n =
     (if n < 10 then [char_of (48 + n)]
      else digits fuel (n div 10) @ [char_of (48 + n mod 10)])"

definition show_int :: "int \<Rightarrow> string" where
  "show_int i = (if i < 0 then ''-'' @ digits (Suc (nat (- i))) (nat (- i))
                 else digits (Suc (nat i)) (nat i))"

fun join :: "string \<Rightarrow> string list \<Rightarrow> string" where
  "join sep [] = []"
| "join sep [x] = x"
| "join sep (x # y # ys) = x @ sep @ join sep (y # ys)"

text \<open>
  \<open>`${v}`\<close> and \<open>'' + v\<close>: the string a template literal inserts. Inside an array,
  \<open>undefined\<close> and \<open>null\<close> print as the empty string.
\<close>

fun to_str :: "jsval \<Rightarrow> string" where
  "to_str JUndefined = ''undefined''"
| "to_str JNull = ''null''"
| "to_str (JBool b) = (if b then ''true'' else ''false'')"
| "to_str (JNum n) = show_int n"
| "to_str (JStr s) = s"
| "to_str (JArr xs) =
     join '','' (map (\<lambda>x. if x = JUndefined \<or> x = JNull then [] else to_str x) xs)"
| "to_str (JObj ps) = ''[object Object]''"
| "to_str (JFn f) = ''function '' @ f @ ''() { [native code] }''"

section \<open>Effects\<close>

text \<open>
  Everything the program does besides computing values goes through a collaborator: the
  logger, a shell command, a prompt, a file read, a login. A collaborator acts on the
  outside world \<open>'w\<close>, about which nothing is assumed. Next to the world the model keeps
  the list of calls made so far, oldest first, as a test's mock functions record them.
  \<open>ProcessExit n\<close> records a call that ends the process with status \<open>n\<close>
  (\<open>process.exit(n)\<close>, directly or inside \<open>commander.help()\<close>). Only the program
  adds to this list; a collaborator acts on the world alone.
\<close>

datatype event =
    Log string jsval
  | Exec string
  | Prompted jsval
  | Login
  | ReadFile string
  | SetEnv string jsval
  | Spawn string
  | ProcessExit nat

type_synonym 'w st = "event list \<times> 'w"

type_synonym ('a, 'w) m = "'w st \<Rightarrow> 'a comp \<times> 'w st"

definition ret :: "'a \<Rightarrow> ('a, 'w) m" where
  "ret v = (\<lambda>s. (Val v, s))"

definition throw :: "exn \<Rightarrow> ('a, 'w) m" where
  "throw e = (\<lambda>s. (Exn e, s))"

definition bind :: "('a, 'w) m \<Rightarrow> ('a \<Rightarrow> ('b, 'w) m) \<Rightarrow> ('b, 'w) m" where
  "bind f g = (\<lambda>s. case f s of
                      (Val v, s') \<Rightarrow> g v s'
                    | (Exn e, s') \<Rightarrow> (Exn e, s')
                    | (Hang, s') \<Rightarrow> (Hang, s'))"

definition emit :: "event \<Rightarrow> (unit, 'w) m" where
  "emit ev = (\<lambda>s. (Val (), (fst s @ [ev], snd s)))"

text \<open>A value or an exception of a pure operation, inside an effectful body.\<close>

definition lift :: "exn + 'a \<Rightarrow> ('a, 'w) m" where
  "lift r = (case r of Inl e \<Rightarrow> throw e | Inr v \<Rightarrow> ret v)"

text \<open>Calling a collaborator: the call is recorded, then it acts on the world.\<close>

definition invoke :: "event \<Rightarrow> ('w \<Rightarrow> 'r \<times> 'w) \<Rightarrow> 'w st \<Rightarrow> 'r \<times> 'w st" where
  "invoke ev f = (\<lambda>s. case f (snd s) of (r, w') \<Rightarrow> (r, (fst s @ [ev], w')))"

text \<open>\<open>try { body } catch (e) { handler }\<close>.\<close>

definition try_catch :: "('a, 'w) m \<Rightarrow> (exn \<Rightarrow> ('a, 'w) m) \<Rightarrow> ('a, 'w) m" where
  "try_catch body handler =
     (\<lambda>s. case body s of
            (Exn e, s') \<Rightarrow> handler e s'
          | (Val v, s') \<Rightarrow> (Val v, s')
          | (Hang, s') \<Rightarrow> (Hang, s'))"

text \<open>
  \<open>await f(x).catch(handler)\<close>: the handler sees a rejection of the promise, never an
  exception thrown by the call \<open>f(x)\<close> itself.
\<close>

definition await_catch ::
  "('w st \<Rightarrow> 'a call \<times> 'w st) \<Rightarrow> (exn \<Rightarrow> ('a, 'w) m) \<Rightarrow> ('a, 'w) m" where
  "await_catch f handler =
     (\<lambda>s. case f s of
            (Threw e, s') \<Rightarrow> (Exn e, s')
          | (Promise (Val v), s') \<Rightarrow> (Val v, s')
          | (Promise (Exn e), s') \<Rightarrow> handler e s'
          | (Promise Hang, s') \<Rightarrow> (Hang, s'))"

section \<open>The logger\<close>

text \<open>
  \<open>logger.error\<close>, \<open>logger.info\<close>, \<open>logger.log\<close>, \<open>logger.success\<close> all go
  through \<open>print\<close> and \<open>styleOutput\<close>, which takes a string as it is and otherwise
  destructures its argument as an iterable (\<open>const [header, ...content] = messages\<close>).
  Of the values modelled only strings and arrays are iterable; anything else throws
  before a line is printed.
\<close>

definition logger :: "string \<Rightarrow> jsval \<Rightarrow> (unit, 'w) m" where
  "logger level messages =
     (case messages of
        JStr s \<Rightarrow> emit (Log level messages)
      | JArr xs \<Rightarrow> emit (Log level messages)
      | _ \<Rightarrow> throw (TypeError ''messages is not iterable''))"

section \<open>The step runner\<close>

text \<open>
  A Step Function: given the options it acts on the world and produces a value, throws,
  or never settles. \<open>await step(options)\<close> treats a synchronous and an asynchronous
  step alike. The type \<open>'o\<close> of the options is arbitrary here (for a step that mutates
  the options object it is a reference into the world).
\<close>

type_synonym ('o, 'w) step = "'o \<Rightarrow> ('w st \<Rightarrow> jsval comp \<times> 'w st)"

text \<open>
  The block \<open>if (result.error) { ... }\<close> of \<open>runSteps\<close>, preceded by the read of
  \<open>result.error\<close> in \<open>const runNextStep = !result.error && steps.length\<close>. It
  yields whether \<open>result.error\<close> is truthy.
\<close>

definition report :: "jsval \<Rightarrow> (bool, 'w) m" where
  "report result =
     bind (lift (get_prop result ''error'')) (\<lambda>err.
       if truthy err then
         bind (lift (get_prop result ''message'')) (\<lambda>message.
         bind (if truthy message then logger ''error'' (JArr [message]) else ret ()) (\<lambda>_.
         bind (lift (get_prop result ''messages'')) (\<lambda>messages.
         bind (if truthy messages then logger ''log'' messages else ret ()) (\<lambda>_.
         ret True))))
       else ret False)"

text \<open>
  One run of \<open>runSteps(steps, options)\<close>. Besides the outcome of the returned promise
  and the final state, the model gives the contents of the caller's \<open>steps\<close> array
  afterwards (\<open>steps.shift()\<close> removes the first element in place) and the calls
  \<open>step(options)\<close> made, in order, each with the argument it received.
  On an empty array \<open>shift\<close> returns \<open>undefined\<close> and the call \<open>step(options)\<close>
  throws.
\<close>

record ('o, 'w) run =
  outcome :: "jsval comp"
  remaining :: "('o, 'w) step list"
  calls :: "(('o, 'w) step \<times> 'o) list"
  final :: "'w st"

fun runSteps :: "('o, 'w) step list \<Rightarrow> 'o \<Rightarrow> 'w st \<Rightarrow> ('o, 'w) run" where
  "runSteps [] options s =
     \<lparr>outcome = Exn (TypeError ''step is not a function''), remaining = [],
      calls = [], final = s\<rparr>"
| "runSteps (step # steps) options s =
     (case step options s of
        (Hang, s1) \<Rightarrow>
          \<lparr>outcome = Hang, remaining = steps, calls = [(step, options)], final = s1\<rparr>
      | (Exn e, s1) \<Rightarrow>
          \<lparr>outcome = Exn e, remaining = steps, calls = [(step, options)], final = s1\<rparr>
      | (Val result, s1) \<Rightarrow>
          (case report result s1 of
             (Hang, s2) \<Rightarrow>
               \<lparr>outcome = Hang, remaining = steps, calls = [(step, options)], final = s2\<rparr>
           | (Exn e, s2) \<Rightarrow>
               \<lparr>outcome = Exn e, remaining = steps, calls = [(step, options)], final = s2\<rparr>
           | (Val failed, s2) \<Rightarrow>
               if \<not> failed \<and> steps \<noteq> [] then
                 (let r = runSteps steps options s2
                  in r\<lparr>calls := (step, options) # calls r\<rparr>)
               else
                 \<lparr>outcome = Val result, remaining = steps, calls = [(step, options)],
                  final = s2\<rparr>))"


section \<open>More runtime operations\<close>

text \<open>\<open>a === b\<close> where one side is a primitive: equal values of primitive type.\<close>

fun is_primitive :: "jsval \<Rightarrow> bool" where
  "is_primitive (JArr xs) = False"
| "is_primitive (JObj ps) = False"
| "is_primitive (JFn f) = False"
| "is_primitive v = True"

definition strict_eq :: "jsval \<Rightarrow> jsval \<Rightarrow> bool" where
  "strict_eq a b = (a = b \<and> is_primitive a)"

text \<open>
  \<open>v > 0\<close> converts \<open>v\<close> to a number first. A string converts when it is a decimal
  numeral (the empty string is 0); other strings, and objects, give NaN, which is not
  greater than anything.
\<close>

fun numeral_of :: "string \<Rightarrow> nat \<Rightarrow> nat option" where
  "numeral_of [] acc = Some acc"
| "numeral_of (c # cs) acc =
     (if (48::nat) \<le> of_char c \<and> (of_char c :: nat) \<le> 57
      then numeral_of cs (10 * acc + ((of_char c :: nat) - 48)) else None)"

fun gt_zero :: "jsval \<Rightarrow> bool" where
  "gt_zero (JNum n) = (0 < n)"
| "gt_zero (JBool b) = b"
| "gt_zero (JStr s) = (case numeral_of s 0 of Some n \<Rightarrow> 0 < n | None \<Rightarrow> False)"
| "gt_zero (JArr xs) = (case numeral_of (to_str (JArr xs)) 0 of Some n \<Rightarrow> 0 < n | None \<Rightarrow> False)"
| "gt_zero v = False"

text \<open>\<open>Array.isArray(v)\<close> and \<open>Object.keys(v)\<close> (on a value that is not nullish).\<close>

fun is_array :: "jsval \<Rightarrow> bool" where
  "is_array (JArr xs) = True"
| "is_array v = False"

fun object_keys :: "jsval \<Rightarrow> string list" where
  "object_keys (JObj ps) = remdups (map fst ps)"
| "object_keys (JArr xs) = map (\<lambda>i. show_int (int i)) [0..<length xs]"
| "object_keys (JStr s) = map (\<lambda>i. show_int (int i)) [0..<length s]"
| "object_keys v = []"

text \<open>A default parameter value: \<open>(options = {}) => ...\<close>.\<close>

definition default_arg :: "jsval \<Rightarrow> jsval \<Rightarrow> jsval" where
  "default_arg v d = (if v = JUndefined then d else v)"

definition dq :: string where
  "dq = [CHR 0x22]"

definition nl :: string where
  "nl = [CHR 0x0A]"

definition bindE :: "exn + 'a \<Rightarrow> ('a \<Rightarrow> exn + 'b) \<Rightarrow> exn + 'b" where
  "bindE r f = (case r of Inl e \<Rightarrow> Inl e | Inr v \<Rightarrow> f v)"

text \<open>The object literal \<open>{ error, message }\<close>.\<close>

definition response :: "bool \<Rightarrow> string \<Rightarrow> jsval" where
  "response error message = JObj [(''error'', JBool error), (''message'', JStr message)]"

section \<open>Module validate\<close>

text \<open>
  \<open>validators.reduce((currentResult, fnValidator) => ..., successResponse)\<close>. A
  validator is a thunk; what matters of it is the value it returns, or the exception it
  throws, when it is called. It is not called once a result carries an error.
\<close>

fun runValidators :: "(exn + jsval) list \<Rightarrow> jsval \<Rightarrow> exn + jsval" where
  "runValidators [] currentResult = Inr currentResult"
| "runValidators (fnValidator # validators) currentResult =
     bindE (if truthy (get_opt currentResult ''error'') then Inr currentResult else fnValidator)
       (\<lambda>result.
     bindE (get_prop result ''error'') (\<lambda>error.
     runValidators validators (if truthy error then result else currentResult)))"

text \<open>\<open>typeof v === 'string' && v.length > 0\<close>.\<close>

definition is_nonempty_string :: "jsval \<Rightarrow> bool" where
  "is_nonempty_string v = (typeof v = ''string'' \<and> gt_zero (get_opt v ''length''))"

definition validateDirectory :: "jsval \<Rightarrow> jsval" where
  "validateDirectory directory =
     (if is_nonempty_string directory then response False ''The directory option is valid.''
      else response True ''The directory option is required.'')"

definition validateProjectKey :: "jsval \<Rightarrow> jsval" where
  "validateProjectKey projectKey =
     (if is_nonempty_string projectKey then response False ''The projectKey option is valid.''
      else response True ''The projectKey option is required.'')"

definition validateProjectName :: "jsval \<Rightarrow> jsval" where
  "validateProjectName projectName =
     (if is_nonempty_string projectName then response False ''The project name is valid.''
      else response True ''The project name is invalid.'')"

definition validateFirebasercProjects :: "jsval \<Rightarrow> jsval" where
  "validateFirebasercProjects projects =
     (let haveProjects = (truthy projects \<and> typeof projects = ''object'');
          haveValidProjectsType = (haveProjects \<and> \<not> is_array projects);
          haveDefinedProjects = (haveValidProjectsType \<and> 0 < length (object_keys projects))
      in if haveDefinedProjects
         then response False
                (''The .firebaserc file contains a valid '' @ dq @ ''projects'' @ dq @ '' property.'')
         else response True
                (''The .firebaserc file does not contain a valid '' @ dq @ ''projects'' @ dq
                 @ '' property.''))"

definition validateParsedFirebaserc :: "jsval \<Rightarrow> jsval" where
  "validateParsedFirebaserc firebaserc =
     (let haveFirebaserc = (typeof firebaserc = ''object'' \<and> truthy firebaserc);
          isValidFirebaserc = (haveFirebaserc \<and> 0 < length (object_keys firebaserc))
      in if isValidFirebaserc then response False ''The .firebaserc file contains a valid object.''
         else response True ''The .firebaserc file contains an empty or invalid object.'')"

section \<open>The collaborators outside the repository\<close>

text \<open>
  What Node and the third-party packages provide. Each acts on the world; none is assumed
  to behave in any particular way.
  \<^item> \<open>spawn\<close>: \<open>child_process.spawn\<close>. It throws, or starts a child whose life is the
    sequence of events it emits.
  \<^item> \<open>prompt\<close>: \<open>inquirer.prompt\<close>; \<open>login\<close>: the \<open>login\<close> of \<open>firebase-tools\<close>.
  \<^item> \<open>readFile\<close>: \<open>fs.readFile(path, 'utf8')\<close>; \<open>path_join\<close>: \<open>path.join\<close> on
    strings; \<open>JSON_parse\<close>: \<open>JSON.parse\<close>.
  \<^item> \<open>process_env\<close>: the variables of \<open>process.env\<close> when the module is loaded.
  \<^item> \<open>shell_env_set\<close>, \<open>shell_env_get\<close>: writing and reading \<open>shelljs.env[name]\<close>.
\<close>

datatype proc_event = Stdout string | Stderr string | Exit jsval | Close jsval

record 'w platform =
  spawn :: "string \<Rightarrow> 'w \<Rightarrow> (exn + proc_event list) \<times> 'w"
  prompt :: "jsval \<Rightarrow> 'w \<Rightarrow> jsval call \<times> 'w"
  login :: "'w \<Rightarrow> jsval call \<times> 'w"
  readFile :: "string \<Rightarrow> 'w \<Rightarrow> jsval comp \<times> 'w"
  path_join :: "string \<Rightarrow> string \<Rightarrow> string"
  JSON_parse :: "jsval \<Rightarrow> exn + jsval"
  process_env :: "string \<Rightarrow> string option"
  shell_env_set :: "string \<Rightarrow> jsval \<Rightarrow> 'w \<Rightarrow> 'w"
  shell_env_get :: "string \<Rightarrow> 'w \<Rightarrow> jsval"

text \<open>
  An injected \<open>executable\<close> (by default \<open>exec\<close>): a command line in, a promise of
  \<open>{ code, stderr, stdout }\<close> out. Every call is recorded.
\<close>

type_synonym 'w executable = "string \<Rightarrow> ('w st \<Rightarrow> jsval comp \<times> 'w st)"

definition run_command :: "'w executable \<Rightarrow> string \<Rightarrow> (jsval, 'w) m" where
  "run_command executable command = bind (emit (Exec command)) (\<lambda>_. executable command)"

text \<open>
  \<open>steps.reduce(async (currentState, step) => { const state = await currentState; ... },
  initial)\<close>: every reducer call first awaits the promise of the one before, so the bodies
  run one after the other, and a rejection passes through all that follow.
\<close>

fun reduce_async :: "('b \<Rightarrow> 'a \<Rightarrow> ('b, 'w) m) \<Rightarrow> 'a list \<Rightarrow> 'b \<Rightarrow> ('b, 'w) m" where
  "reduce_async f [] state = (\<lambda>s. (Val state, s))"
| "reduce_async f (x # xs) state =
     (\<lambda>s. case f state x s of
            (Val state', s') \<Rightarrow> reduce_async f xs state' s'
          | (Exn e, s') \<Rightarrow> (Exn e, s')
          | (Hang, s') \<Rightarrow> (Hang, s'))"


section \<open>Module exec\<close>

text \<open>
  The handlers \<open>exec\<close> registers on the child: \<open>stdout\<close> data is collected; the first
  \<open>stderr\<close> data, \<open>exit\<close> or \<open>close\<close> event calls \<open>resolve\<close>. A promise keeps
  the value of the first \<open>resolve\<close>, so the events after it cannot change the outcome
  and are not followed. A child that emits none of the three leaves the promise pending.
\<close>

fun listen :: "bool \<Rightarrow> proc_event list \<Rightarrow> string \<Rightarrow> string \<Rightarrow> (jsval, 'w) m" where
  "listen debug [] stdout stderr = (\<lambda>s. (Hang, s))"
| "listen debug (Stdout d # evs) stdout stderr =
     (\<lambda>s. case (if debug then logger ''info'' (JArr [JStr ''STDOUT: '', JStr d]) else ret ()) s of
            (Val u, s') \<Rightarrow> listen debug evs (stdout @ d) stderr s'
          | (Exn e, s') \<Rightarrow> (Exn e, s')
          | (Hang, s') \<Rightarrow> (Hang, s'))"
| "listen debug (Stderr d # evs) stdout stderr =
     bind (if debug then logger ''error'' (JArr [JStr (''STDERR: '' @ d)]) else ret ()) (\<lambda>_.
     ret (JObj [(''code'', JNum 1), (''stderr'', JStr (stderr @ d)), (''stdout'', JStr stdout)]))"
| "listen debug (Exit code # evs) stdout stderr =
     ret (JObj [(''code'', code), (''stderr'', JStr stderr), (''stdout'', JStr stdout)])"
| "listen debug (Close code # evs) stdout stderr =
     ret (JObj [(''code'', code), (''stderr'', JStr stderr), (''stdout'', JStr stdout)])"

text \<open>
  \<open>exec(command, options = {})\<close>. The \<open>spawn\<close> option, by which a test replaces
  \<open>child_process.spawn\<close>, is the platform's \<open>spawn\<close> here. An exception of
  \<open>spawn\<close> is thrown inside the promise executor and rejects the promise.
\<close>

definition exec :: "'w platform \<Rightarrow> string \<Rightarrow> jsval \<Rightarrow> (jsval, 'w) m" where
  "exec P command options =
     bind (lift (get_prop (default_arg options (JObj [])) ''debug'')) (\<lambda>d.
     bind (lift (get_prop (default_arg options (JObj [])) ''verbose'')) (\<lambda>verbose.
     (\<lambda>s. case invoke (Spawn command) (spawn P command) s of
            (Inl e, s') \<Rightarrow> (Exn e, s')
          | (Inr evs, s') \<Rightarrow>
              bind (if truthy (default_arg d verbose)
                    then logger ''log'' (JArr [JStr (''Executing `'' @ command @ ''` ...'')])
                    else ret ()) (\<lambda>_.
              listen (truthy (default_arg d verbose)) evs [] []) s')))"

text \<open>
  The earlier \<open>exec\<close> of \<open>src/ops.js\<close>: it always logs, prints \<open>stdout\<close> data with
  \<open>console.log\<close>, resolves without a \<open>stderr\<close> field on \<open>exit\<close>, and has no handler
  for \<open>close\<close>.
\<close>

fun listen_draft :: "proc_event list \<Rightarrow> string \<Rightarrow> string \<Rightarrow> (jsval, 'w) m" where
  "listen_draft [] stdout stderr = (\<lambda>s. (Hang, s))"
| "listen_draft (Stdout d # evs) stdout stderr =
     (\<lambda>s. case emit (Log ''console.log'' (JStr d)) s of
            (Val u, s') \<Rightarrow> listen_draft evs (stdout @ d) stderr s'
          | (Exn e, s') \<Rightarrow> (Exn e, s')
          | (Hang, s') \<Rightarrow> (Hang, s'))"
| "listen_draft (Stderr d # evs) stdout stderr =
     bind (logger ''error'' (JArr [JStr (''STDERR: '' @ d)])) (\<lambda>_.
     ret (JObj [(''code'', JNum 1), (''stderr'', JStr (stderr @ d)), (''stdout'', JStr stdout)]))"
| "listen_draft (Exit code # evs) stdout stderr =
     ret (JObj [(''code'', code), (''stdout'', JStr stdout)])"
| "listen_draft (Close code # evs) stdout stderr = listen_draft evs stdout stderr"

definition exec_draft :: "'w platform \<Rightarrow> string \<Rightarrow> jsval \<Rightarrow> (jsval, 'w) m" where
  "exec_draft P command options =
     (\<lambda>s. case invoke (Spawn command) (spawn P command) s of
            (Inl e, s') \<Rightarrow> (Exn e, s')
          | (Inr evs, s') \<Rightarrow>
              bind (logger ''log'' (JArr [JStr (''Running `'' @ command @ ''` ...'')])) (\<lambda>_.
              listen_draft evs [] []) s')"

section \<open>Module gcloud\<close>

definition validateGoogleProjectName :: "jsval \<Rightarrow> jsval" where
  "validateGoogleProjectName projectName =
     (if is_nonempty_string projectName then response False ''The Google Cloud project name is valid.''
      else response True ''The Google Cloud project name is invalid.'')"

definition setGoogleCloudProject :: "jsval \<Rightarrow> 'w executable \<Rightarrow> (jsval, 'w) m" where
  "setGoogleCloudProject projectName executable =
     bind (run_command executable
             (''gcloud config set project '' @ to_str projectName @ '' --no-user-output-enabled''))
       (\<lambda>result.
     bind (lift (get_prop result ''code'')) (\<lambda>code.
     ret (if \<not> strict_eq code (JNum 0)
          then response True
                 (''Failed to set the Google Cloud project to '' @ dq @ to_str projectName @ dq @ ''.'')
          else response False
                 (''The Google Cloud project has been set to '' @ dq @ to_str projectName @ dq
                  @ ''.''))))"

definition configureGoogleProject :: "jsval \<Rightarrow> 'w executable \<Rightarrow> (jsval, 'w) m" where
  "configureGoogleProject projectName executable =
     bind (ret (validateGoogleProjectName projectName)) (\<lambda>validationResult.
     bind (lift (get_prop validationResult ''error'')) (\<lambda>error.
     if truthy error then ret validationResult
     else setGoogleCloudProject projectName executable))"


section \<open>Module firebase\<close>

text \<open>
  The optional parameters by which a test replaces one function of the repository by
  another (\<open>validators\<close>, \<open>validator\<close>, \<open>parser\<close>, \<open>reader\<close>, \<open>runner\<close>) are at
  their defaults, as they are in every call the program itself makes.
\<close>

definition validateFirebaserc :: "jsval \<Rightarrow> exn + jsval" where
  "validateFirebaserc firebaserc =
     runValidators
       [Inr (validateParsedFirebaserc firebaserc),
        bindE (get_prop firebaserc ''projects'') (\<lambda>projects. Inr (validateFirebasercProjects projects))]
       (response False ''The .firebaserc JSON is valid.'')"

definition validateOptions :: "jsval \<Rightarrow> exn + jsval" where
  "validateOptions options =
     runValidators
       [bindE (get_prop options ''directory'') (\<lambda>directory. Inr (validateDirectory directory)),
        bindE (get_prop options ''projectKey'') (\<lambda>projectKey. Inr (validateProjectKey projectKey))]
       (response False ''The options are valid.'')"

text \<open>\<open>path.join(directory, '.firebaserc')\<close> throws unless \<open>directory\<close> is a string.\<close>

definition join_path :: "'w platform \<Rightarrow> jsval \<Rightarrow> string \<Rightarrow> exn + string" where
  "join_path P directory name =
     (case directory of
        JStr d \<Rightarrow> Inr (path_join P d name)
      | _ \<Rightarrow> Inl (TypeError (''The '' @ dq @ ''path'' @ dq @ '' argument must be of type string.'')))"

definition readFirebaserc :: "'w platform \<Rightarrow> jsval \<Rightarrow> (jsval, 'w) m" where
  "readFirebaserc P directory =
     try_catch
       (bind (lift (join_path P directory ''.firebaserc'')) (\<lambda>firebasercPath.
        bind (invoke (ReadFile firebasercPath) (readFile P firebasercPath)) (\<lambda>firebaserc.
        ret (JObj [(''error'', JBool False), (''firebaserc'', firebaserc)]))))
       (\<lambda>e. ret (JObj [(''error'', JBool True), (''message'', JStr (emessage e))]))"

definition parseJson :: "'w platform \<Rightarrow> jsval \<Rightarrow> jsval" where
  "parseJson P jsonString =
     (case JSON_parse P jsonString of
        Inr json \<Rightarrow> JObj [(''error'', JBool False), (''json'', json)]
      | Inl e \<Rightarrow> JObj [(''error'', JBool True), (''message'', JStr (emessage e))])"

definition parseFirebaserc :: "'w platform \<Rightarrow> jsval \<Rightarrow> exn + jsval" where
  "parseFirebaserc P firebaserc =
     bindE (Inr (parseJson P firebaserc)) (\<lambda>result.
     bindE (get_prop result ''error'') (\<lambda>error.
     bindE (get_prop result ''json'') (\<lambda>json.
     Inr (if truthy error then result else JObj [(''error'', error), (''firebaserc'', json)]))))"

definition getFirebaserc :: "'w platform \<Rightarrow> jsval \<Rightarrow> (jsval, 'w) m" where
  "getFirebaserc P directory =
     bind (readFirebaserc P directory) (\<lambda>result.
     bind (lift (get_prop result ''error'')) (\<lambda>error.
     bind (lift (get_prop result ''firebaserc'')) (\<lambda>firebaserc.
     if truthy error then ret result else lift (parseFirebaserc P firebaserc))))"

definition findProjectsInFirebaserc :: "jsval \<Rightarrow> exn + jsval" where
  "findProjectsInFirebaserc firebaserc =
     bindE (validateFirebaserc firebaserc) (\<lambda>validationResult.
     if truthy (get_opt validationResult ''error'') then Inr validationResult
     else bindE (get_prop firebaserc ''projects'') (\<lambda>projects.
          Inr (JObj [(''error'', JBool False), (''projects'', projects)])))"

text \<open>\<open>projects[projectKey]\<close>: the key is converted to a string.\<close>

definition findProjectNameByKey :: "jsval \<Rightarrow> jsval \<Rightarrow> exn + jsval" where
  "findProjectNameByKey projectKey projects =
     bindE (get_prop projects (to_str projectKey)) (\<lambda>projectName.
     bindE (Inr (validateProjectName projectName)) (\<lambda>result.
     Inr (if truthy (get_opt result ''error'') then result
          else JObj [(''error'', JBool False), (''projectName'', projectName)])))"

definition getFirebasercProjects :: "'w platform \<Rightarrow> jsval \<Rightarrow> (jsval, 'w) m" where
  "getFirebasercProjects P directory =
     bind (getFirebaserc P directory) (\<lambda>firebasercJson.
     bind (lift (get_prop firebasercJson ''error'')) (\<lambda>error.
     bind (lift (get_prop firebasercJson ''firebaserc'')) (\<lambda>firebaserc.
     if truthy error then ret firebasercJson else lift (findProjectsInFirebaserc firebaserc))))"

definition readProjectNameFromFirebaserc :: "'w platform \<Rightarrow> jsval \<Rightarrow> (jsval, 'w) m" where
  "readProjectNameFromFirebaserc P options =
     bind (lift (get_prop options ''directory'')) (\<lambda>directory.
     bind (lift (get_prop options ''projectKey'')) (\<lambda>projectKey.
     bind (getFirebasercProjects P directory) (\<lambda>readerResult.
     bind (lift (get_prop readerResult ''error'')) (\<lambda>error.
     bind (lift (get_prop readerResult ''projects'')) (\<lambda>projects.
     if truthy error then ret readerResult else lift (findProjectNameByKey projectKey projects))))))"

definition getProjectName :: "'w platform \<Rightarrow> jsval \<Rightarrow> (jsval, 'w) m" where
  "getProjectName P options =
     bind (lift (validateOptions options)) (\<lambda>validation.
     if truthy (get_opt validation ''error'') then ret validation
     else readProjectNameFromFirebaserc P options)"

definition configureFirebaseProject :: "jsval \<Rightarrow> 'w executable \<Rightarrow> (jsval, 'w) m" where
  "configureFirebaseProject options executable =
     bind (lift (get_prop options ''projectKey'')) (\<lambda>projectKey.
     bind (run_command executable (''firebase use '' @ to_str projectKey)) (\<lambda>result.
     bind (lift (get_prop result ''code'')) (\<lambda>code.
     ret (if \<not> strict_eq code (JNum 0)
          then response True ''The Firebase project could not be configured.''
          else response False ''The Firebase project has been configured.''))))"

definition configureFirebaseWebFrameworks :: "jsval \<Rightarrow> 'w executable \<Rightarrow> (jsval, 'w) m" where
  "configureFirebaseWebFrameworks options executable =
     bind (run_command executable ''firebase experiments:enable webframeworks'') (\<lambda>result.
     bind (lift (get_prop result ''code'')) (\<lambda>code.
     ret (if \<not> strict_eq code (JNum 0)
          then response True ''The Firebase webframeworks feature could not be enabled.''
          else response False ''The Firebase webframeworks feature has been enabled.'')))"

text \<open>
  \<open>configureFirebaseLogin(options = {}, executable = cli.login)\<close>. The call
  \<open>executable()\<close> is the platform's \<open>login\<close>.
\<close>

definition configureFirebaseLogin :: "'w platform \<Rightarrow> jsval \<Rightarrow> (jsval, 'w) m" where
  "configureFirebaseLogin P options =
     bind (lift (get_prop (default_arg options (JObj [])) ''debug'')) (\<lambda>d.
     bind (await_catch (invoke Login (login P))
             (\<lambda>e. bind (if truthy (default_arg d (JBool False))
                         then logger ''error'' (JArr [JStr (emessage e)]) else ret ()) (\<lambda>_.
                   ret (JObj [(''error'', JBool True), (''message'', JStr (emessage e))]))))
       (\<lambda>result.
     if typeof result = ''object'' \<and> truthy result \<and> truthy (get_opt result ''email'')
     then ret (JObj [(''email'', get_opt result ''email''), (''error'', JBool False),
                     (''message'', JStr ''The user has been logged in to Firebase.'')])
     else ret (JObj [(''error'', JBool True),
                     (''message'', js_or (get_opt result ''message'')
                                     (JStr ''The Firebase login attempt failed.''))])))"

definition makeFirebaseConfigurationSteps ::
  "'w platform \<Rightarrow> jsval \<Rightarrow> 'w executable \<Rightarrow> (jsval \<Rightarrow> (jsval, 'w) m) list" where
  "makeFirebaseConfigurationSteps P options executable =
     [\<lambda>state. bind (logger ''info''
                      (JArr [JStr ''Enabling Firebase's experimental webframeworks feature ...'']))
                (\<lambda>_. configureFirebaseWebFrameworks options executable),
      \<lambda>state. bind (logger ''info'' (JArr [JStr ''Signing into Firebase ...'']))
                (\<lambda>_. configureFirebaseLogin P JUndefined),
      \<lambda>state. bind (logger ''info'' (JArr [JStr ''Configuring the Firebase project ...'']))
                (\<lambda>_. configureFirebaseProject options executable)]"

text \<open>
  \<open>configureFirebase(options, steps)\<close>; \<open>firebaseReducer\<close> is the arrow function
  it passes to \<open>reduce\<close>. The reducer resolves to \<open>currentState\<close>, the promise it was
  given, that is to the state it awaited from it.
\<close>

definition firebaseReducer :: "jsval \<Rightarrow> (jsval \<Rightarrow> (jsval, 'w) m) \<Rightarrow> (jsval, 'w) m" where
  "firebaseReducer state fnStep =
     bind (if truthy (get_opt state ''error'') then ret state else fnStep state) (\<lambda>result.
     bind (lift (get_prop result ''error'')) (\<lambda>error.
     ret (if truthy error then result else state)))"

definition configureFirebase ::
  "jsval \<Rightarrow> (jsval \<Rightarrow> (jsval, 'w) m) list \<Rightarrow> (jsval, 'w) m" where
  "configureFirebase options steps =
     reduce_async firebaseReducer steps (response False ''Firebase has been configured.'')"

section \<open>Module ops: the steps\<close>

definition FONT_AWESOME_NPM_REGISTRY :: string where
  "FONT_AWESOME_NPM_REGISTRY = ''npm.fontawesome.com/''"

definition FONT_AWESOME_TOKEN_LOCATION :: "'w platform \<Rightarrow> string" where
  "FONT_AWESOME_TOKEN_LOCATION P =
     (case process_env P ''FONT_AWESOME_TOKEN_LOCATION'' of
        None \<Rightarrow> ''fontawesome.com/account'' | Some v \<Rightarrow> v)"

definition configureNodeEnv :: "'w platform \<Rightarrow> jsval \<Rightarrow> (jsval, 'w) m" where
  "configureNodeEnv P env =
     (\<lambda>s. let w' = shell_env_set P ''NODE_ENV'' env (snd s);
                error = \<not> strict_eq (shell_env_get P ''NODE_ENV'' w') env
            in (Val (JObj [(''error'', JBool error)]), (fst s @ [SetEnv ''NODE_ENV'' env], w')))"

definition obtainFontAwesomeToken :: "'w platform \<Rightarrow> (jsval, 'w) m" where
  "obtainFontAwesomeToken P =
     bind (logger ''info''
             (JArr [JStr (''Obtain the Font Awesome token from '' @ FONT_AWESOME_TOKEN_LOCATION P)]))
       (\<lambda>_.
     bind (await_catch
             (invoke
                (Prompted
                   (JArr [JObj [(''type'', JStr ''input''), (''name'', JStr ''token''),
                                (''message'', JStr ''Enter the Font Awesome token.''),
                                (''default'',
                                 JStr (case process_env P ''FONT_AWESOME_TOKEN'' of
                                         None \<Rightarrow> [] | Some v \<Rightarrow> v))]]))
                (prompt P
                   (JArr [JObj [(''type'', JStr ''input''), (''name'', JStr ''token''),
                                (''message'', JStr ''Enter the Font Awesome token.''),
                                (''default'',
                                 JStr (case process_env P ''FONT_AWESOME_TOKEN'' of
                                         None \<Rightarrow> [] | Some v \<Rightarrow> v))]])))
             (\<lambda>error. ret (JObj [(''error'', JBool True), (''message'', JStr (emessage error))])))
       (\<lambda>response.
     bind (lift (get_prop (js_or response (JObj [])) ''error'')) (\<lambda>promptError.
     bind (lift (get_prop (js_or response (JObj [])) ''message'')) (\<lambda>promptMessage.
     bind (lift (get_prop (js_or response (JObj [])) ''token'')) (\<lambda>token.
     let isValidToken = (truthy token \<and> gt_zero (get_opt token ''length''));
         error = js_or promptError (JBool (\<not> isValidToken));
         message = (if truthy error
                    then js_or promptMessage (JStr ''The Font Awesome token is invalid.'')
                    else JStr ''The Font Awesome token has been obtained.'')
     in ret (JObj [(''error'', error), (''message'', message), (''token'', token)]))))))"

definition setFontAwesomeRegistry :: "'w executable \<Rightarrow> (jsval, 'w) m" where
  "setFontAwesomeRegistry executable =
     bind (run_command executable
             (''npm config set '' @ dq @ ''@fortawesome:registry'' @ dq @ '' ''
              @ FONT_AWESOME_NPM_REGISTRY))
       (\<lambda>result.
     bind (lift (get_prop result ''code'')) (\<lambda>code.
     ret (if \<not> strict_eq code (JNum 0)
          then response True ''Failed to set the Font Awesome registry.''
          else response False ''The Font Awesome registry has been set.'')))"

definition setFontAwesomeToken :: "jsval \<Rightarrow> 'w executable \<Rightarrow> (jsval, 'w) m" where
  "setFontAwesomeToken options executable =
     bind (logger ''info'' (JArr [JStr ''Configuring access to the Font Awesome registry ...''])) (\<lambda>_.
     bind (run_command executable
             (''npm config set '' @ dq @ ''//'' @ FONT_AWESOME_NPM_REGISTRY @ '':_authToken'' @ dq
              @ '' '' @ to_str (get_opt options ''token'')))
       (\<lambda>result.
     bind (lift (get_prop result ''code'')) (\<lambda>code.
     ret (if \<not> strict_eq code (JNum 0)
          then response True ''Failed to set the Font Awesome token.''
          else response False ''The Font Awesome token has been set.''))))"

definition makeFontAwesomeConfigurationSteps ::
  "'w platform \<Rightarrow> 'w executable \<Rightarrow> (jsval \<Rightarrow> (jsval, 'w) m) list" where
  "makeFontAwesomeConfigurationSteps P executable =
     [\<lambda>state. obtainFontAwesomeToken P,
      \<lambda>state. setFontAwesomeRegistry executable,
      \<lambda>state. setFontAwesomeToken state executable]"

text \<open>
  \<open>configureFontAwesome(steps)\<close>; \<open>fontAwesomeReducer\<close> is the arrow function it
  passes to \<open>reduce\<close>. \<open>state.token = token\<close> changes the state object that the
  reducer then returns; the updated object is the new state.
\<close>

definition fontAwesomeReducer :: "jsval \<Rightarrow> (jsval \<Rightarrow> (jsval, 'w) m) \<Rightarrow> (jsval, 'w) m" where
  "fontAwesomeReducer state step =
     bind (lift (get_prop state ''error'')) (\<lambda>stateError.
     bind (if truthy stateError then ret state else step state) (\<lambda>latestState.
     bind (lift (get_prop latestState ''error'')) (\<lambda>error.
     bind (lift (get_prop latestState ''token'')) (\<lambda>token.
     bind (if \<not> truthy error \<and> truthy token \<and> gt_zero (get_opt token ''length'')
           then lift (set_prop state ''token'' token) else ret state) (\<lambda>state'.
     ret (if truthy error then latestState else state'))))))"

definition configureFontAwesome :: "(jsval \<Rightarrow> (jsval, 'w) m) list \<Rightarrow> (jsval, 'w) m" where
  "configureFontAwesome steps =
     bind (logger ''info'' (JArr [JStr (''Setting up Font Awesome ... '' @ nl)])) (\<lambda>_.
     reduce_async fontAwesomeReducer steps (response False ''Font Awesome is ready.''))"

definition stepConfigureNodeEnv ::
  "jsval \<Rightarrow> (jsval \<Rightarrow> (jsval, 'w) m) \<Rightarrow> (jsval, 'w) m" where
  "stepConfigureNodeEnv options executable =
     bind (lift (get_prop options ''env'')) (\<lambda>env.
     bind (logger ''info''
             (JArr [JStr (''Configuring the NODE_ENV environment variable to '' @ to_str env
                          @ '' ...'')])) (\<lambda>_.
     bind (executable env) (\<lambda>result.
     bind (lift (get_prop result ''error'')) (\<lambda>error.
     if truthy error then
       lift (set_prop result ''messages''
               (JArr [JStr (''Failed to set the NODE_ENV environment variable to '' @ to_str env
                            @ ''.'' @ nl),
                      JStr (''- Confirm the OPS_NODE_ENV env var in the .env file or the env option on the command line.'' @ nl),
                      JStr (''- Ensure the env option is set to a valid and desirable value.'' @ nl)]))
     else
       bind (logger ''log'' (JArr [JStr (''NODE_ENV is set to '' @ to_str env @ ''.'')])) (\<lambda>_.
       bind (logger ''success'' (JArr [JStr ''The environment is ready.''])) (\<lambda>_.
       ret result))))))"

definition stepConfigureGoogle ::
  "jsval \<Rightarrow> (jsval \<Rightarrow> (jsval, 'w) m) \<Rightarrow> (jsval \<Rightarrow> (jsval, 'w) m) \<Rightarrow> (jsval, 'w) m" where
  "stepConfigureGoogle options parser reader =
     bind (logger ''info'' (JArr [JStr ''Configuring Google Cloud ...''])) (\<lambda>_.
     bind (reader options) (\<lambda>projectNameResult.
     bind (lift (get_prop (js_or projectNameResult (JObj [])) ''error'')) (\<lambda>error.
     bind (lift (get_prop (js_or projectNameResult (JObj [])) ''projectName'')) (\<lambda>projectName.
     bind (logger ''log''
             (JArr [JStr (''Setting the Google Cloud project to '' @ dq @ to_str projectName @ dq
                          @ '' ...'')])) (\<lambda>_.
     bind (if truthy error then ret projectNameResult else parser projectName) (\<lambda>result.
     bind (lift (get_prop result ''error'')) (\<lambda>failed.
     if truthy failed then
       bind (lift (get_prop options ''projectKey'')) (\<lambda>projectKey.
       lift (set_prop result ''messages''
               (JArr [JStr (''Failed to configure Google Cloud using '' @ dq @ to_str projectKey @ dq
                            @ '' as the projectKey.'' @ nl),
                      JStr (''  1. Review the OPS_PROJECT_KEY env var in the .env file or the '' @ dq
                            @ ''projectKey'' @ dq @ '' flag on the command line.'' @ nl),
                      JStr (''     Ensure the project key is set to a valid and desirable value.''
                            @ nl @ nl),
                      JStr (''  2. Ensure the .firebaserc file has a property for the corresponding project key.'' @ nl),
                      JStr (''     Ensure the project name in the .firebaserc file is set to a valid and desirable value.'' @ nl @ nl),
                      JStr (''  3. Ensure your gcloud user has access to the project referenced in the .firebaserc file.'' @ nl),
                      JStr (''     Run '' @ dq @ ''gcloud auth list'' @ dq
                            @ '' to review your auth state.'' @ nl)])))
     else
       bind (logger ''success'' (JArr [JStr ''Google Cloud is ready.''])) (\<lambda>_.
       ret result))))))))"

definition stepConfigureFirebaseProject ::
  "jsval \<Rightarrow> (jsval \<Rightarrow> (jsval, 'w) m) \<Rightarrow> (jsval, 'w) m" where
  "stepConfigureFirebaseProject options executable =
     bind (executable options) (\<lambda>result.
     bind (lift (get_prop result ''error'')) (\<lambda>error.
     if truthy error then
       bind (lift (get_prop options ''projectKey'')) (\<lambda>projectKey.
       lift (set_prop result ''messages''
               (JArr [JStr (''Failed to configure Firebase using '' @ dq @ to_str projectKey @ dq
                            @ '' as the projectKey.'' @ nl),
                      JStr (''  1. Confirm the OPS_PROJECT_KEY env var in the .env file or the '' @ dq
                            @ ''projectKey'' @ dq @ '' flag on the command line.'' @ nl),
                      JStr (''     Ensure the project key is set to a valid and desirable value.''
                            @ nl @ nl),
                      JStr (''  2. Ensure the .firebaserc file has a property for the corresponding project key.'' @ nl),
                      JStr (''     Ensure the project name in the .firebaserc file is set to a valid and desirable value.'' @ nl @ nl),
                      JStr (''  3. Ensure your gcloud user has access to the project referenced in the .firebaserc file.'' @ nl),
                      JStr (''     Run '' @ dq @ ''firebase login:list'' @ dq
                            @ '' to review your auth state.'' @ nl)])))
     else
       bind (logger ''success'' (JArr [JStr ''Firebase is ready.''])) (\<lambda>_.
       ret result)))"

definition stepConfigureFontAwesome :: "(jsval, 'w) m \<Rightarrow> (jsval, 'w) m" where
  "stepConfigureFontAwesome executable =
     bind executable (\<lambda>result.
     bind (lift (get_prop result ''error'')) (\<lambda>error.
     if truthy error
     then lift (set_prop result ''messages'' (JArr [JStr ''Failed to configure Font Awesome.'']))
     else ret result))"

definition stepFinish :: "(jsval, 'w) m" where
  "stepFinish =
     bind (logger ''success'' (JArr [JStr (nl @ ''The setup is complete. Happy coding!'' @ nl)])) (\<lambda>_.
     ret (JObj [(''error'', JBool False)]))"


section \<open>Module ops: the two sequences and the command line\<close>

text \<open>\<open>exec\<close> as the steps call it: with a command and no options.\<close>

definition default_exec :: "'w platform \<Rightarrow> 'w executable" where
  "default_exec P = (\<lambda>command. exec P command JUndefined)"

text \<open>
  The arrays \<open>allSteps\<close> of \<open>setupFirebase\<close> and \<open>setup\<close>. \<open>runSteps\<close> calls
  each entry with the options alone, so every other parameter takes its default value;
  the fourth entry of \<open>setup\<close> is
  \<open>stepConfigureFontAwesome.bind(null, configureFontAwesome)\<close>.
\<close>

definition setupFirebase_steps :: "'w platform \<Rightarrow> (jsval, 'w) step list" where
  "setupFirebase_steps P =
     [\<lambda>options. stepConfigureGoogle options
                   (\<lambda>projectName. configureGoogleProject projectName (default_exec P))
                   (getProjectName P),
      \<lambda>options. stepConfigureFirebaseProject options
                   (\<lambda>options. configureFirebase options
                                 (makeFirebaseConfigurationSteps P options (default_exec P))),
      \<lambda>options. stepFinish]"

definition setup_steps :: "'w platform \<Rightarrow> (jsval, 'w) step list" where
  "setup_steps P =
     [\<lambda>options. stepConfigureNodeEnv options (configureNodeEnv P),
      \<lambda>options. stepConfigureGoogle options
                   (\<lambda>projectName. configureGoogleProject projectName (default_exec P))
                   (getProjectName P),
      \<lambda>options. stepConfigureFirebaseProject options
                   (\<lambda>options. configureFirebase options
                                 (makeFirebaseConfigurationSteps P options (default_exec P))),
      \<lambda>options. stepConfigureFontAwesome
                   (configureFontAwesome (makeFontAwesomeConfigurationSteps P (default_exec P))),
      \<lambda>options. stepFinish]"

definition run_sequence ::
  "string \<Rightarrow> (jsval, 'w) step list \<Rightarrow> jsval \<Rightarrow> 'w st \<Rightarrow> (jsval, 'w) run" where
  "run_sequence banner allSteps options =
     (\<lambda>s. case logger ''info'' (JArr [JStr banner]) s of
            (Val u, s1) \<Rightarrow> runSteps allSteps (default_arg options (JObj [])) s1
          | (Exn e, s1) \<Rightarrow> \<lparr>outcome = Exn e, remaining = allSteps, calls = [], final = s1\<rparr>
          | (Hang, s1) \<Rightarrow> \<lparr>outcome = Hang, remaining = allSteps, calls = [], final = s1\<rparr>)"

definition setupFirebase :: "'w platform \<Rightarrow> jsval \<Rightarrow> 'w st \<Rightarrow> (jsval, 'w) run" where
  "setupFirebase P options = run_sequence ''Configuring Firebase ...'' (setupFirebase_steps P) options"

text \<open>The function \<open>setup\<close> of the source (the bare name is reserved in Isabelle).\<close>

definition setup_full :: "'w platform \<Rightarrow> jsval \<Rightarrow> 'w st \<Rightarrow> (jsval, 'w) run" where
  "setup_full P options = run_sequence ''Setting up the environment ...'' (setup_steps P) options"

text \<open>
  The command line. The actions of the subcommands \<open>setup\<close> and \<open>firebase\<close> are
  \<open>(options) => { return setup(options) }\<close> and
  \<open>(options) => { return setupFirebase(options) }\<close>; \<open>commander.parse\<close> does not
  look at the promise they return. The action of \<open>help\<close> is
  \<open>() => { return commander.help() }\<close>, and with no subcommand at all the last lines
  of the module call \<open>commander.help()\<close> unless \<open>NODE_ENV\<close> is \<open>test\<close>.
  \<open>commander.help()\<close> prints the usage and ends the process with status 0; the call
  does not return. (The usage text itself is left out.)
\<close>

datatype subcommand = Setup | Firebase | Help | NoCommand

definition TESTING :: "'w platform \<Rightarrow> bool" where
  "TESTING P = (process_env P ''NODE_ENV'' = Some ''test'')"

definition commander_help :: "'w st \<Rightarrow> (jsval, 'w) run" where
  "commander_help s =
     \<lparr>outcome = Hang, remaining = [], calls = [], final = (fst s @ [ProcessExit 0], snd s)\<rparr>"

definition action :: "'w platform \<Rightarrow> subcommand \<Rightarrow> jsval \<Rightarrow> 'w st \<Rightarrow> (jsval, 'w) run" where
  "action P sub options =
     (case sub of
        Setup \<Rightarrow> setup_full P options
      | Firebase \<Rightarrow> setupFirebase P options
      | Help \<Rightarrow> commander_help
      | NoCommand \<Rightarrow>
          (\<lambda>s. if \<not> TESTING P then commander_help s
                else \<lparr>outcome = Val JUndefined, remaining = [], calls = [], final = s\<rparr>))"

text \<open>
  The status with which the process ends. If the program ended the process itself, it
  is the status of the first such call. Otherwise the runtime decides when nothing is
  left to run: 0, or 1 when the promise of the action was rejected and nothing handled
  the rejection; while that promise is pending the process has not ended.
\<close>

fun exit_requests :: "event list \<Rightarrow> nat list" where
  "exit_requests [] = []"
| "exit_requests (ProcessExit n # evs) = n # exit_requests evs"
| "exit_requests (e # evs) = exit_requests evs"

definition exit_code :: "'w platform \<Rightarrow> subcommand \<Rightarrow> jsval \<Rightarrow> 'w st \<Rightarrow> nat option" where
  "exit_code P sub options s =
     (case exit_requests (fst (final (action P sub options s))) of
        n # ns \<Rightarrow> Some n
      | [] \<Rightarrow>
          (case outcome (action P sub options s) of
             Val result \<Rightarrow> Some 0
           | Exn e \<Rightarrow> Some 1
           | Hang \<Rightarrow> None))"

section \<open>The earlier runner of \<open>src/ops.js\<close>\<close>

text \<open>
  The file \<open>src/ops.js\<close> holds an earlier \<open>runSteps\<close>. It differs in the block
  for a failure, which is \<open>logger.error(result.messages)\<close> whether or not the
  Result has \<open>messages\<close>.
\<close>

definition report_draft :: "jsval \<Rightarrow> (bool, 'w) m" where
  "report_draft result =
     bind (lift (get_prop result ''error'')) (\<lambda>err.
       if truthy err then
         bind (lift (get_prop result ''messages'')) (\<lambda>messages.
         bind (logger ''error'' messages) (\<lambda>_.
         ret True))
       else ret False)"

fun runSteps_draft :: "('o, 'w) step list \<Rightarrow> 'o \<Rightarrow> 'w st \<Rightarrow> ('o, 'w) run" where
  "runSteps_draft [] options s =
     \<lparr>outcome = Exn (TypeError ''step is not a function''), remaining = [],
      calls = [], final = s\<rparr>"
| "runSteps_draft (step # steps) options s =
     (case step options s of
        (Hang, s1) \<Rightarrow>
          \<lparr>outcome = Hang, remaining = steps, calls = [(step, options)], final = s1\<rparr>
      | (Exn e, s1) \<Rightarrow>
          \<lparr>outcome = Exn e, remaining = steps, calls = [(step, options)], final = s1\<rparr>
      | (Val result, s1) \<Rightarrow>
          (case report_draft result s1 of
             (Hang, s2) \<Rightarrow>
               \<lparr>outcome = Hang, remaining = steps, calls = [(step, options)], final = s2\<rparr>
           | (Exn e, s2) \<Rightarrow>
               \<lparr>outcome = Exn e, remaining = steps, calls = [(step, options)], final = s2\<rparr>
           | (Val failed, s2) \<Rightarrow>
               if \<not> failed \<and> steps \<noteq> [] then
                 (let r = runSteps_draft steps options s2
                  in r\<lparr>calls := (step, options) # calls r\<rparr>)
               else
                 \<lparr>outcome = Val result, remaining = steps, calls = [(step, options)],
                  final = s2\<rparr>))"

section \<open>The vocabulary of the properties\<close>

text \<open>
  A Result, as the data model has it: an object whose \<open>error\<close> is a boolean, whose
  \<open>message\<close>, if any, is a string, and whose \<open>messages\<close>, if any, is a sequence of
  strings.
\<close>

fun is_text :: "jsval \<Rightarrow> bool" where
  "is_text (JStr s) = True"
| "is_text v = False"

definition is_result :: "jsval \<Rightarrow> bool" where
  "is_result v =
     (case v of
        JObj ps \<Rightarrow>
          (case map_of ps ''error'' of Some (JBool b) \<Rightarrow> True | _ \<Rightarrow> False) \<and>
          (case map_of ps ''message'' of
             None \<Rightarrow> True | Some JUndefined \<Rightarrow> True | Some (JStr m) \<Rightarrow> True | _ \<Rightarrow> False) \<and>
          (case map_of ps ''messages'' of
             None \<Rightarrow> True | Some JUndefined \<Rightarrow> True | Some (JArr ms) \<Rightarrow> list_all is_text ms
           | _ \<Rightarrow> False)
      | _ \<Rightarrow> False)"

text \<open>A Result with \<open>error: true\<close> (or \<open>error: false\<close>).\<close>

definition has_error :: "jsval \<Rightarrow> bool \<Rightarrow> bool" where
  "has_error v b = (is_result v \<and> get_prop v ''error'' = Inr (JBool b))"

text \<open>
  The steps of a sequence run one after the other, from a given state, with no runner in
  between: entry \<open>i\<close> is what step \<open>i + 1\<close> yields, and the state it leaves, when each
  step starts where the one before stopped.
\<close>

fun trail :: "('o, 'w) step list \<Rightarrow> 'o \<Rightarrow> 'w st \<Rightarrow> (jsval comp \<times> 'w st) list" where
  "trail [] options s = []"
| "trail (step # steps) options s =
     (case step options s of (r, s1) \<Rightarrow> (r, s1) # trail steps options s1)"

text \<open>The lines the runner logs for a failing Result: the summary, then the remediation.\<close>

definition failure_log :: "jsval \<Rightarrow> event list" where
  "failure_log v =
     (if truthy (get_opt v ''message'') then [Log ''error'' (JArr [get_opt v ''message''])] else []) @
     (if truthy (get_opt v ''messages'') then [Log ''log'' (get_opt v ''messages'')] else [])"

text \<open>
  The state in which a list of steps leaves the world when they run one after the other
  from \<open>s\<close>.
\<close>

definition state_after :: "('o, 'w) step list \<Rightarrow> 'o \<Rightarrow> 'w st \<Rightarrow> 'w st" where
  "state_after steps options s =
     (case trail steps options s of [] \<Rightarrow> s | p # ps \<Rightarrow> snd (last (p # ps)))"

text \<open>
  A Result that carries remediation: its \<open>messages\<close> is a non-empty sequence of
  lines of text.
\<close>

definition has_remediation :: "jsval \<Rightarrow> bool" where
  "has_remediation v =
     (case get_prop v ''messages'' of
        Inr (JArr ms) \<Rightarrow> ms \<noteq> [] \<and> list_all is_text ms
      | _ \<Rightarrow> False)"

text \<open>A run whose promise resolved to a Result with \<open>error: true\<close>.\<close>

definition ends_in_error :: "('o, 'w) run \<Rightarrow> bool" where
  "ends_in_error r =
     (case outcome r of Val v \<Rightarrow> get_prop v ''error'' = Inr (JBool True) | _ \<Rightarrow> False)"

text \<open>
  A child process emits \<open>close\<close> only after \<open>exit\<close>: of the events that end it, the
  first one is not a \<open>close\<close>.
\<close>

fun orderly :: "proc_event list \<Rightarrow> bool" where
  "orderly [] = True"
| "orderly (Exit code # evs) = True"
| "orderly (Close code # evs) = False"
| "orderly (e # evs) = orderly evs"

fun is_exit :: "proc_event \<Rightarrow> bool" where
  "is_exit (Exit code) = True"
| "is_exit e = False"

fun is_exec :: "event \<Rightarrow> bool" where
  "is_exec (Exec command) = True"
| "is_exec (Spawn command) = True"
| "is_exec e = False"

text \<open>
  A piece of the program that does not end the process: whatever it does, the calls
  recorded after it hold the same \<open>ProcessExit\<close> entries as before.
\<close>

definition quiet :: "('w st \<Rightarrow> 'r \<times> 'w st) \<Rightarrow> bool" where
  "quiet f = (\<forall>s r s'. f s = (r, s') \<longrightarrow> exit_requests (fst s') = exit_requests (fst s))"

section \<open>Sample steps\<close>

text \<open>
  Three steps on a world that counts the steps run: one succeeds, one fails with a
  summary line, one succeeds with a message.
\<close>

definition sample_ok :: "(jsval, nat) step" where
  "sample_ok = (\<lambda>options s. (Val (JObj [(''error'', JBool False)]), (fst s, Suc (snd s))))"

definition sample_failing :: "(jsval, nat) step" where
  "sample_failing =
     (\<lambda>options s. (Val (JObj [(''error'', JBool True), (''message'', JStr ''no'')]),
                    (fst s, Suc (snd s))))"

definition sample_done :: "(jsval, nat) step" where
  "sample_done =
     (\<lambda>options s. (Val (JObj [(''error'', JBool False), (''message'', JStr ''done'')]),
                    (fst s, Suc (snd s))))"


text \<open>
  A platform whose world is the environment of the process, as \<open>shelljs.env\<close> keeps
  it: what is written is read back, as a string. Every command prints, warns on
  \<open>stderr\<close> and exits 0; the prompt yields an empty token; the login is refused; the
  registry file maps \<open>default\<close> to \<open>acme-prod\<close>.
\<close>

definition sample_platform :: "(string \<times> string) list platform" where
  "sample_platform =
     \<lparr>spawn = (\<lambda>command w. (Inr [Stdout ''ok'', Stderr ''warning'', Exit (JNum 0)], w)),
      prompt = (\<lambda>questions w. (Promise (Val (JObj [(''token'', JStr [])])), w)),
      login = (\<lambda>w. (Promise (Exn (Error ''boom'' ''Error: boom at login'')), w)),
      readFile = (\<lambda>path w. (Val (JStr ''{ projects: { default: acme-prod } }''), w)),
      path_join = (\<lambda>a b. a @ ''/'' @ b),
      JSON_parse = (\<lambda>text. Inr (JObj [(''projects'', JObj [(''default'', JStr ''acme-prod'')])])),
      process_env = (\<lambda>name. None),
      shell_env_set = (\<lambda>name v w. (name, to_str v) # w),
      shell_env_get = (\<lambda>name w. case map_of w name of None \<Rightarrow> JUndefined | Some v \<Rightarrow> JStr v)\<rparr>"

text \<open>Options as the command line builds them, with a key the registry file lacks.\<close>

definition missing_key_options :: jsval where
  "missing_key_options =
     JObj [(''directory'', JStr ''.''), (''env'', JStr ''development''),
           (''projectKey'', JStr ''missing-key'')]"

section \<open>Properties of the step runner\<close>

lemma report_ok: "has_error v False \<Longrightarrow> report v s = (Val False, s)"
  by (auto simp: has_error_def report_def bind_def lift_def ret_def)

lemma report_failed:
  assumes "has_error v True"
  shows "report v s = (Val True, (fst s @ failure_log v, snd s))"
proof -
  from assms obtain ps where v: "v = JObj ps" and r: "is_result (JObj ps)"
    and e: "map_of ps ''error'' = Some (JBool True)"
    by (cases v) (auto simp: has_error_def is_result_def split: option.splits jsval.splits)
  show ?thesis
    using r e unfolding v
    by (cases s) (auto simp: is_result_def report_def bind_def lift_def ret_def logger_def emit_def
             inherited_def object_prototype_def failure_log_def get_opt_def
             split: option.splits jsval.splits)
qed

lemma runSteps_partition:
  "map fst (calls (runSteps steps options s)) @ remaining (runSteps steps options s) = steps"
  by (induction steps arbitrary: s) (auto split: prod.splits comp.splits simp: Let_def)

lemma runSteps_args:
  "c \<in> set (calls (runSteps steps options s)) \<Longrightarrow> snd c = options"
  by (induction steps arbitrary: s) (auto split: prod.splits comp.splits if_splits simp: Let_def)


lemma runSteps_all_ok:
  assumes "steps \<noteq> []"
    and "\<forall>p \<in> set (trail steps options s). \<exists>v. fst p = Val v \<and> has_error v False"
  shows "runSteps steps options s =
           \<lparr>outcome = fst (last (trail steps options s)), remaining = [],
            calls = map (\<lambda>f. (f, options)) steps,
            final = snd (last (trail steps options s))\<rparr>"
  using assms
proof (induction steps arbitrary: s)
  case Nil
  then show ?case by simp
next
  case (Cons step steps)
  obtain r s1 where st: "step options s = (r, s1)" by (cases "step options s")
  with Cons.prems obtain v where r: "r = Val v" and ok: "has_error v False" by auto
  have rep: "report v s1 = (Val False, s1)" using ok by (rule report_ok)
  show ?case
  proof (cases "steps = []")
    case True
    then show ?thesis using st r rep by simp
  next
    case False
    have "\<forall>p \<in> set (trail steps options s1). \<exists>v. fst p = Val v \<and> has_error v False"
      using Cons.prems st by simp
    from Cons.IH [OF False this] have ih: "runSteps steps options s1 =
           \<lparr>outcome = fst (last (trail steps options s1)), remaining = [],
            calls = map (\<lambda>f. (f, options)) steps,
            final = snd (last (trail steps options s1))\<rparr>" .
    have ne: "trail steps options s1 \<noteq> []" using False by (cases steps) (auto split: prod.splits)
    show ?thesis using st r rep False ih ne by simp
  qed
qed


lemma runSteps_first_failure:
  assumes "j < length steps"
    and "\<forall>i<j. \<exists>v. fst (trail steps options s ! i) = Val v \<and> has_error v False"
    and "trail steps options s ! j = (Val r, sj)"
    and "has_error r True"
  shows "runSteps steps options s =
           \<lparr>outcome = Val r, remaining = drop (Suc j) steps,
            calls = map (\<lambda>f. (f, options)) (take (Suc j) steps),
            final = (fst sj @ failure_log r, snd sj)\<rparr>"
  using assms
proof (induction steps arbitrary: s j)
  case Nil
  then show ?case by simp
next
  case (Cons step steps)
  obtain x s1 where st: "step options s = (x, s1)" by (cases "step options s")
  show ?case
  proof (cases j)
    case 0
    with Cons.prems st have x: "x = Val r" and s1: "s1 = sj" by auto
    have "report r sj = (Val True, (fst sj @ failure_log r, snd sj))"
      using Cons.prems(4) by (rule report_failed)
    then show ?thesis using 0 st x s1 by simp
  next
    case (Suc j')
    from Cons.prems(2) [rule_format, of 0] Suc st
    obtain v where x: "x = Val v" and ok: "has_error v False" by auto
    have rep: "report v s1 = (Val False, s1)" using ok by (rule report_ok)
    have len: "j' < length steps" using Cons.prems(1) Suc by simp
    have ne: "steps \<noteq> []" using len by auto
    have before: "\<forall>i<j'. \<exists>v. fst (trail steps options s1 ! i) = Val v \<and> has_error v False"
    proof (intro allI impI)
      fix i assume "i < j'"
      then have "Suc i < j" using Suc by simp
      from Cons.prems(2) [rule_format, OF this] show
        "\<exists>v. fst (trail steps options s1 ! i) = Val v \<and> has_error v False"
        using st by simp
    qed
    have at: "trail steps options s1 ! j' = (Val r, sj)"
      using Cons.prems(3) Suc st by simp
    from Cons.IH [OF len before at Cons.prems(4)]
    show ?thesis using st x rep ne Suc by simp
  qed
qed

lemma runSteps_settles:
  assumes "steps \<noteq> []"
    and "\<forall>f \<in> set steps. \<forall>s. \<exists>v s'. f options s = (Val v, s') \<and> is_result v"
  shows "\<exists>v. outcome (runSteps steps options s) = Val v \<and> is_result v"
  using assms
proof (induction steps arbitrary: s)
  case Nil
  then show ?case by simp
next
  case (Cons step steps)
  from Cons.prems(2) obtain v s1 where st: "step options s = (Val v, s1)" and res: "is_result v"
    by (meson list.set_intros(1))
  from res obtain b where "has_error v b"
    by (cases v) (auto simp: has_error_def is_result_def split: option.splits jsval.splits)
  then show ?case
  proof (cases b)
    case True
    with \<open>has_error v b\<close> have "report v s1 = (Val True, (fst s1 @ failure_log v, snd s1))"
      by (simp add: report_failed)
    then show ?thesis using st res by simp
  next
    case False
    with \<open>has_error v b\<close> have rep: "report v s1 = (Val False, s1)" by (simp add: report_ok)
    show ?thesis
    proof (cases "steps = []")
      case True
      then show ?thesis using st rep res by simp
    next
      case ne: False
      have "\<forall>f \<in> set steps. \<forall>s. \<exists>v s'. f options s = (Val v, s') \<and> is_result v"
        using Cons.prems(2) by simp
      from Cons.IH [OF ne this, of s1] show ?thesis using st rep ne by (simp add: Let_def)
    qed
  qed
qed



text \<open>
  C1 (short-circuit). Let the steps run in order from state \<open>s\<close>, each with
  \<open>options\<close>. If the first \<open>k - 1\<close> steps return Results with \<open>error: false\<close> and
  step \<open>k\<close> (\<open>1 \<le> k \<le> N\<close>, so in particular \<open>k < N\<close>) returns a Result \<open>r\<close> with
  \<open>error: true\<close>, then \<open>runSteps\<close> calls exactly the first \<open>k\<close> steps, in order,
  and returns \<open>r\<close> itself. The steps after \<open>k\<close> are never called: they are still in the
  array, and the world is the one step \<open>k\<close> left, with the failure logged.
\<close>

theorem runSteps_short_circuit:
  assumes "0 < k" and "k \<le> length steps"
    and "\<forall>i<k - 1. \<exists>v. fst (trail steps options s ! i) = Val v \<and> has_error v False"
    and "trail steps options s ! (k - 1) = (Val r, sk)"
    and "has_error r True"
  shows "outcome (runSteps steps options s) = Val r
       \<and> calls (runSteps steps options s) = map (\<lambda>f. (f, options)) (take k steps)
       \<and> remaining (runSteps steps options s) = drop k steps
       \<and> final (runSteps steps options s) = (fst sk @ failure_log r, snd sk)"
proof -
  from assms(1,2) have j: "k - 1 < length steps" and k: "Suc (k - 1) = k" by simp_all
  have "runSteps steps options s =
          \<lparr>outcome = Val r, remaining = drop (Suc (k - 1)) steps,
           calls = map (\<lambda>f. (f, options)) (take (Suc (k - 1)) steps),
           final = (fst sk @ failure_log r, snd sk)\<rparr>"
    by (rule runSteps_first_failure [OF j assms(3) assms(4) assms(5)])
  then show ?thesis unfolding k by simp
qed

theorem runSteps_short_circuit_witness:
  "outcome (runSteps [sample_ok, sample_failing, sample_ok] JNull ([], 0))
     = Val (JObj [(''error'', JBool True), (''message'', JStr ''no'')])
   \<and> calls (runSteps [sample_ok, sample_failing, sample_ok] JNull ([], 0))
     = [(sample_ok, JNull), (sample_failing, JNull)]
   \<and> remaining (runSteps [sample_ok, sample_failing, sample_ok] JNull ([], 0)) = [sample_ok]
   \<and> final (runSteps [sample_ok, sample_failing, sample_ok] JNull ([], 0))
     = ([Log ''error'' (JArr [JStr ''no''])], 2)"
proof -
  let ?steps = "[sample_ok, sample_failing, sample_ok]"
  let ?r = "JObj [(''error'', JBool True), (''message'', JStr ''no'')]"
  have h1: "(0::nat) < 2" and h2: "2 \<le> length ?steps" by simp_all
  have h3: "\<forall>i<2 - 1. \<exists>v. fst (trail ?steps JNull ([], 0::nat) ! i) = Val v \<and> has_error v False"
    by (simp add: sample_ok_def has_error_def is_result_def)
  have h4: "trail ?steps JNull ([], 0::nat) ! (2 - 1) = (Val ?r, ([], 2))"
    by (simp add: sample_ok_def sample_failing_def)
  have h5: "has_error ?r True"
    by (simp add: has_error_def is_result_def)
  from runSteps_short_circuit [OF h1 h2 h3 h4 h5]
  show ?thesis by (simp add: failure_log_def get_opt_def inherited_def object_prototype_def)
qed



text \<open>
  C2 (pass-through). If every step of a non-empty sequence, run in order, returns a
  Result with \<open>error: false\<close>, then \<open>runSteps\<close> calls all the steps in order, each
  with the same \<open>options\<close>, and returns what the last step returned.
\<close>

theorem runSteps_pass_through:
  assumes "steps \<noteq> []"
    and "\<forall>p \<in> set (trail steps options s). \<exists>v. fst p = Val v \<and> has_error v False"
  shows "outcome (runSteps steps options s) = fst (last (trail steps options s))
       \<and> calls (runSteps steps options s) = map (\<lambda>f. (f, options)) steps
       \<and> remaining (runSteps steps options s) = []
       \<and> final (runSteps steps options s) = snd (last (trail steps options s))"
proof -
  have "runSteps steps options s =
          \<lparr>outcome = fst (last (trail steps options s)), remaining = [],
           calls = map (\<lambda>f. (f, options)) steps,
           final = snd (last (trail steps options s))\<rparr>"
    using assms by (rule runSteps_all_ok)
  then show ?thesis by simp
qed

theorem runSteps_pass_through_witness:
  "outcome (runSteps [sample_ok, sample_ok, sample_done] JNull ([], 0))
     = Val (JObj [(''error'', JBool False), (''message'', JStr ''done'')])
   \<and> calls (runSteps [sample_ok, sample_ok, sample_done] JNull ([], 0))
     = [(sample_ok, JNull), (sample_ok, JNull), (sample_done, JNull)]
   \<and> remaining (runSteps [sample_ok, sample_ok, sample_done] JNull ([], 0)) = []
   \<and> final (runSteps [sample_ok, sample_ok, sample_done] JNull ([], 0)) = ([], 3)"
proof -
  let ?steps = "[sample_ok, sample_ok, sample_done]"
  have h1: "?steps \<noteq> []" by simp
  have h2: "\<forall>p \<in> set (trail ?steps JNull ([], 0::nat)). \<exists>v. fst p = Val v \<and> has_error v False"
    by (simp add: sample_ok_def sample_done_def has_error_def is_result_def)
  from runSteps_pass_through [OF h1 h2]
  show ?thesis by (simp add: sample_ok_def sample_done_def)
qed


text \<open>
  C7 (the runner does not throw). If every step of a non-empty sequence, applied to the
  options in whatever state, returns or resolves to a Result, then the promise of
  \<open>runSteps\<close> is neither rejected nor left pending: it resolves to a Result.
\<close>

theorem runSteps_never_throws:
  assumes "steps \<noteq> []"
    and "\<forall>f \<in> set steps. \<forall>s. \<exists>v s'. f options s = (Val v, s') \<and> is_result v"
  shows "\<exists>v. outcome (runSteps steps options s) = Val v \<and> is_result v"
  using assms by (rule runSteps_settles)

theorem runSteps_never_throws_witness:
  "\<exists>v. outcome (runSteps [sample_ok, sample_failing, sample_ok] JNull ([], 0)) = Val v
       \<and> is_result v"
proof -
  let ?steps = "[sample_ok, sample_failing, sample_ok]"
  have h1: "?steps \<noteq> []" by simp
  have h2: "\<forall>f \<in> set ?steps. \<forall>s. \<exists>v s'. f JNull s = (Val v, s') \<and> is_result v"
    by (simp add: sample_ok_def sample_failing_def is_result_def)
  from runSteps_never_throws [OF h1 h2] show ?thesis .
qed


lemma report_appends: "report v s = (y, s') \<Longrightarrow> \<exists>logs. s' = (fst s @ logs, snd s)"
  by (cases s)
     (auto simp: report_def bind_def lift_def ret_def throw_def logger_def emit_def
           split: sum.splits if_splits jsval.splits prod.splits comp.splits)

lemma report_unfailed: "report v s = (Val False, s') \<Longrightarrow> s' = s"
  by (auto simp: report_def bind_def lift_def ret_def throw_def logger_def emit_def
           split: sum.splits if_splits jsval.splits prod.splits comp.splits)

lemma self_extension: "\<exists>logs. s = (fst s @ logs, snd s)"
  by (cases s) simp

lemma state_after_Cons:
  "state_after (f # fs) options s = state_after fs options (snd (f options s))"
  by (cases fs) (auto simp: state_after_def split: prod.splits)

lemma runSteps_final:
  "\<exists>logs. final (runSteps steps options s)
           = (fst (state_after (map fst (calls (runSteps steps options s))) options s) @ logs,
              snd (state_after (map fst (calls (runSteps steps options s))) options s))"
proof (induction steps arbitrary: s)
  case Nil
  show ?case by (simp add: state_after_def self_extension)
next
  case (Cons step steps)
  obtain x s1 where st: "step options s = (x, s1)" by (cases "step options s")
  have one: "state_after [step] options s = s1"
    using st by (simp add: state_after_def)
  show ?case
  proof (cases x)
    case (Val result)
    obtain y s2 where rep: "report result s1 = (y, s2)" by (cases "report result s1")
    from report_appends [OF rep] obtain logs where s2: "s2 = (fst s1 @ logs, snd s1)" by blast
    show ?thesis
    proof (cases "y = Val False \<and> steps \<noteq> []")
      case True
      then have "s2 = s1" using rep report_unfailed by blast
      with True st Val rep Cons.IH [of s1] show ?thesis
        by (simp add: Let_def state_after_Cons)
    next
      case False
      then show ?thesis using st Val rep s2 one
        by (cases y) (auto simp: Let_def)
    qed
  next
    case (Exn e)
    then show ?thesis using st one by (simp add: self_extension)
  next
    case Hang
    then show ?thesis using st one by (simp add: self_extension)
  qed
qed

text \<open>
  C10 (the array is consumed). After any call of \<open>runSteps\<close> the caller's array
  holds exactly the steps that were not invoked. The steps called, in order, followed by
  what is left in the array, are the array as it was; each call received the options;
  and the steps called are the ones that ran: the world at the end is the world that
  these steps, run one after the other, leave behind, with only log lines added to the
  record by the runner.
\<close>

theorem runSteps_consumes_array:
  "map fst (calls (runSteps steps options s)) @ remaining (runSteps steps options s) = steps
   \<and> (\<forall>c \<in> set (calls (runSteps steps options s)). snd c = options)
   \<and> (\<exists>logs. final (runSteps steps options s)
           = (fst (state_after (map fst (calls (runSteps steps options s))) options s) @ logs,
              snd (state_after (map fst (calls (runSteps steps options s))) options s)))"
  using runSteps_partition [of steps options s] runSteps_args [of _ steps options s]
    runSteps_final [of steps options s]
  by blast

theorem runSteps_consumes_array_witness:
  "map fst (calls (runSteps [sample_ok, sample_failing, sample_ok] JNull ([], 0)))
     = [sample_ok, sample_failing]
   \<and> remaining (runSteps [sample_ok, sample_failing, sample_ok] JNull ([], 0)) = [sample_ok]
   \<and> snd (final (runSteps [sample_ok, sample_failing, sample_ok] JNull ([], 0))) = 2
   \<and> state_after [sample_ok, sample_failing] JNull ([], 0) = ([], 2)"
proof -
  let ?r = "runSteps [sample_ok, sample_failing, sample_ok] JNull ([], 0::nat)"
  have r: "remaining ?r = [sample_ok]"
    by (simp add: sample_ok_def sample_failing_def report_def bind_def lift_def ret_def
          logger_def emit_def inherited_def object_prototype_def)
  have a: "state_after [sample_ok, sample_failing] JNull ([], 0::nat) = ([], 2)"
    by (simp add: state_after_def sample_ok_def sample_failing_def)
  have c: "map fst (calls ?r) = [sample_ok, sample_failing]"
    by (simp add: sample_ok_def sample_failing_def report_def bind_def lift_def ret_def
          logger_def emit_def inherited_def object_prototype_def)
  note whole = runSteps_consumes_array [of "[sample_ok, sample_failing, sample_ok]" JNull
                 "([], 0::nat)"]
  from whole [THEN conjunct2, THEN conjunct2]
  obtain logs where "final ?r = (fst (state_after (map fst (calls ?r)) JNull ([], 0)) @ logs,
                                 snd (state_after (map fst (calls ?r)) JNull ([], 0)))" ..
  then have "snd (final ?r) = 2" unfolding c a by simp
  with r c a show ?thesis by simp
qed


section \<open>Properties of \<open>exec\<close>\<close>

lemma logger_array: "logger level (JArr xs) s = (Val (), (fst s @ [Log level (JArr xs)], snd s))"
  by (simp add: logger_def emit_def)

lemma listen_stderr:
  assumes "orderly evs" and "evs = pre @ Stderr d # rest" and "\<forall>e \<in> set pre. \<not> is_exit e"
  shows "\<exists>r s'. listen debug evs out err s = (Val r, s') \<and> get_prop r ''code'' = Inr (JNum 1)"
  using assms
proof (induction pre arbitrary: evs out err s debug)
  case Nil
  then show ?case by (simp add: bind_def ret_def logger_array)
next
  case (Cons e pre)
  from Cons.prems(2) have evs: "evs = e # (pre @ Stderr d # rest)" by simp
  show ?case
  proof (cases e)
    case (Stdout x)
    have o: "orderly (pre @ Stderr d # rest)" using Cons.prems(1) evs Stdout by simp
    have n: "\<forall>e \<in> set pre. \<not> is_exit e" using Cons.prems(3) by simp
    from Cons.IH [OF o refl n, of debug "out @ x" err
        "if debug then (fst s @ [Log ''info'' (JArr [JStr ''STDOUT: '', JStr x])], snd s) else s"]
    show ?thesis unfolding evs Stdout by (cases debug) (simp_all add: logger_array ret_def)
  next
    case (Stderr x)
    show ?thesis unfolding evs Stderr by (simp add: bind_def ret_def logger_array)
  next
    case (Exit c)
    with Cons.prems(3) show ?thesis by simp
  next
    case (Close c)
    with Cons.prems(1) evs show ?thesis by simp
  qed
qed

lemma listen_draft_stderr:
  assumes "orderly evs" and "evs = pre @ Stderr d # rest" and "\<forall>e \<in> set pre. \<not> is_exit e"
  shows "\<exists>r s'. listen_draft evs out err s = (Val r, s') \<and> get_prop r ''code'' = Inr (JNum 1)"
  using assms
proof (induction pre arbitrary: evs out err s)
  case Nil
  then show ?case by (simp add: bind_def ret_def logger_array)
next
  case (Cons e pre)
  from Cons.prems(2) have evs: "evs = e # (pre @ Stderr d # rest)" by simp
  show ?case
  proof (cases e)
    case (Stdout x)
    have o: "orderly (pre @ Stderr d # rest)" using Cons.prems(1) evs Stdout by simp
    have n: "\<forall>e \<in> set pre. \<not> is_exit e" using Cons.prems(3) by simp
    from Cons.IH [OF o refl n, of "out @ x" err "(fst s @ [Log ''console.log'' (JStr x)], snd s)"]
    show ?thesis unfolding evs Stdout by (simp add: emit_def)
  next
    case (Stderr x)
    show ?thesis unfolding evs Stderr by (simp add: bind_def ret_def logger_array)
  next
    case (Exit c)
    with Cons.prems(3) show ?thesis by simp
  next
    case (Close c)
    with Cons.prems(1) evs show ?thesis by simp
  qed
qed

lemma options_readable:
  "options \<noteq> JNull \<Longrightarrow> \<exists>v. get_prop (default_arg options (JObj [])) k = Inr v"
  by (cases options) (auto simp: default_arg_def)

text \<open>
  C9 (\<open>stderr\<close> means failure). Let the spawned child emit data on \<open>stderr\<close> with no
  \<open>exit\<close> event before it (and, being a child process, no \<open>close\<close> before its
  \<open>exit\<close>). Then \<open>exec\<close> resolves with \<open>code: 1\<close>, whatever exit code the child
  ends with. (The options are not \<open>null\<close>: with \<open>null\<close> the module's \<open>exec\<close>
  throws before it spawns anything.) This holds for the \<open>exec\<close> of the module and for the earlier one of
  \<open>src/ops.js\<close>.
\<close>

theorem stderr_before_exit_reports_failure:
  assumes "spawn P command w = (Inr evs, w')"
    and "orderly evs"
    and "evs = pre @ Stderr d # rest"
    and "\<forall>e \<in> set pre. \<not> is_exit e"
    and "options \<noteq> JNull"
  shows "(\<exists>r s'. exec P command options (tr, w) = (Val r, s')
                \<and> get_prop r ''code'' = Inr (JNum 1))
       \<and> (\<exists>r s'. exec_draft P command options (tr, w) = (Val r, s')
                \<and> get_prop r ''code'' = Inr (JNum 1))"
proof
  from options_readable [OF assms(5)] obtain dv where
    dv: "get_prop (default_arg options (JObj [])) ''debug'' = Inr dv" by blast
  from options_readable [OF assms(5)] obtain vv where
    vv: "get_prop (default_arg options (JObj [])) ''verbose'' = Inr vv" by blast
  show "\<exists>r s'. exec P command options (tr, w) = (Val r, s') \<and> get_prop r ''code'' = Inr (JNum 1)"
  proof (cases "truthy (default_arg dv vv)")
    case True
    from listen_stderr [OF assms(2,3,4)] obtain r s' where
      "listen True evs [] []
         (tr @ [Spawn command, Log ''log'' (JArr [JStr (''Executing `'' @ command @ ''` ...'')])], w')
       = (Val r, s')" and "get_prop r ''code'' = Inr (JNum 1)" by blast
    then show ?thesis
      using True assms(1) dv vv
      by (simp add: exec_def bind_def lift_def ret_def invoke_def logger_array)
  next
    case False
    from listen_stderr [OF assms(2,3,4)] obtain r s' where
      "listen False evs [] [] (tr @ [Spawn command], w') = (Val r, s')"
      and "get_prop r ''code'' = Inr (JNum 1)" by blast
    then show ?thesis
      using False assms(1) dv vv
      by (simp add: exec_def bind_def lift_def ret_def invoke_def)
  qed
next
  from listen_draft_stderr [OF assms(2,3,4)] obtain r s' where
    "listen_draft evs [] []
       (tr @ [Spawn command, Log ''log'' (JArr [JStr (''Running `'' @ command @ ''` ...'')])], w')
     = (Val r, s')" and "get_prop r ''code'' = Inr (JNum 1)" by blast
  then show "\<exists>r s'. exec_draft P command options (tr, w) = (Val r, s')
                  \<and> get_prop r ''code'' = Inr (JNum 1)"
    using assms(1) by (simp add: exec_draft_def bind_def invoke_def logger_array)
qed

theorem stderr_before_exit_reports_failure_witness:
  "exec sample_platform ''gcloud --version'' JUndefined ([], [])
     = (Val (JObj [(''code'', JNum 1), (''stderr'', JStr ''warning''), (''stdout'', JStr ''ok'')]),
        ([Spawn ''gcloud --version''], []))"
proof -
  have h1: "spawn sample_platform ''gcloud --version'' []
              = (Inr [Stdout ''ok'', Stderr ''warning'', Exit (JNum 0)], [])"
    by (simp add: sample_platform_def)
  have h2: "orderly [Stdout ''ok'', Stderr ''warning'', Exit (JNum 0)]" by simp
  have h3: "[Stdout ''ok'', Stderr ''warning'', Exit (JNum 0)]
              = [Stdout ''ok''] @ Stderr ''warning'' # [Exit (JNum 0)]" by simp
  have h4: "\<forall>e \<in> set [Stdout ''ok'']. \<not> is_exit e" by simp
  have h5: "JUndefined \<noteq> JNull" by simp
  from stderr_before_exit_reports_failure [OF h1 h2 h3 h4 h5, of "[]"]
  obtain r s' where e: "exec sample_platform ''gcloud --version'' JUndefined ([], []) = (Val r, s')"
    and "get_prop r ''code'' = Inr (JNum 1)" by blast
  have "exec sample_platform ''gcloud --version'' JUndefined ([], [])
     = (Val (JObj [(''code'', JNum 1), (''stderr'', JStr ''warning''), (''stdout'', JStr ''ok'')]),
        ([Spawn ''gcloud --version''], []))"
    by (simp add: exec_def sample_platform_def default_arg_def bind_def lift_def ret_def invoke_def
          inherited_def object_prototype_def)
  with e show ?thesis by simp
qed


section \<open>Properties of the steps\<close>

lemma bind_lift_Inr: "bind (lift (Inr v)) f = f v"
  by (simp add: bind_def lift_def ret_def)

lemma reduce_async_stuck:
  "(\<And>x s. f state x s = (Val state, s)) \<Longrightarrow> reduce_async f xs state s = (Val state, s)"
  by (induction xs arbitrary: s) simp_all

lemma reduce_async_first_fails:
  assumes "f state x s = (Val st1, s1)" and "\<And>y t. f st1 y t = (Val st1, t)"
  shows "reduce_async f (x # xs) state s = (Val st1, s1)"
  using assms by (simp add: reduce_async_stuck)

lemma fontAwesomeReducer_failed:
  assumes "get_prop state ''error'' = Inr err" and "truthy err"
  shows "fontAwesomeReducer state step s = (Val state, s)"
proof -
  from assms obtain tok where "get_prop state ''token'' = Inr tok"
    by (cases state) auto
  with assms show ?thesis
    by (simp add: fontAwesomeReducer_def bind_def lift_def ret_def)
qed

lemma obtainFontAwesomeToken_empty:
  assumes "\<forall>questions. prompt P questions w
             = (Promise (Val (JObj [(''token'', JStr [])])), w')"
  shows "\<exists>evs. obtainFontAwesomeToken P (tr, w)
      = (Val (JObj [(''error'', JBool True),
                    (''message'', JStr ''The Font Awesome token is invalid.''),
                    (''token'', JStr [])]), (tr @ evs, w'))
      \<and> (\<forall>e \<in> set evs. \<not> is_exec e)"
  using assms
  by (simp add: obtainFontAwesomeToken_def await_catch_def invoke_def js_or_def
        inherited_def object_prototype_def Let_def bind_def lift_def ret_def logger_array)

lemma stepConfigureFontAwesome_empty_token:
  assumes "\<forall>questions. prompt P questions w
             = (Promise (Val (JObj [(''token'', JStr [])])), w')"
  shows "\<exists>evs. stepConfigureFontAwesome
                 (configureFontAwesome (makeFontAwesomeConfigurationSteps P executable)) ([], w)
               = (Val (JObj [(''error'', JBool True),
                             (''message'', JStr ''The Font Awesome token is invalid.''),
                             (''token'', JStr []),
                             (''messages'', JArr [JStr ''Failed to configure Font Awesome.''])]),
                  (evs, w'))
             \<and> (\<forall>e \<in> set evs. \<not> is_exec e)"
proof -
  let ?failed = "JObj [(''error'', JBool True),
                       (''message'', JStr ''The Font Awesome token is invalid.''),
                       (''token'', JStr [])]"
  let ?s0 = "([Log ''info'' (JArr [JStr (''Setting up Font Awesome ... '' @ nl)])], w)"
  from obtainFontAwesomeToken_empty [OF assms, of "fst ?s0"]
  obtain evs where tok: "obtainFontAwesomeToken P ?s0 = (Val ?failed, (fst ?s0 @ evs, w'))"
    and quiet: "\<forall>e \<in> set evs. \<not> is_exec e" by auto
  let ?s1 = "(fst ?s0 @ evs, w')"
  have first: "fontAwesomeReducer (response False ''Font Awesome is ready.'')
                 (\<lambda>state. obtainFontAwesomeToken P) ?s0 = (Val ?failed, ?s1)"
    using tok by (simp add: fontAwesomeReducer_def response_def bind_def lift_def ret_def)
  obtain others where steps: "makeFontAwesomeConfigurationSteps P executable
                                = (\<lambda>state. obtainFontAwesomeToken P) # others"
    by (simp add: makeFontAwesomeConfigurationSteps_def)
  have "reduce_async fontAwesomeReducer (makeFontAwesomeConfigurationSteps P executable)
          (response False ''Font Awesome is ready.'') ?s0 = (Val ?failed, ?s1)"
    unfolding steps
    by (rule reduce_async_first_fails [where f = fontAwesomeReducer, OF first])
       (rule fontAwesomeReducer_failed [where err = "JBool True"], simp_all)
  then have conf: "configureFontAwesome (makeFontAwesomeConfigurationSteps P executable) ([], w)
                = (Val ?failed, ?s1)"
    by (simp add: configureFontAwesome_def bind_def logger_array)
  have "stepConfigureFontAwesome
          (configureFontAwesome (makeFontAwesomeConfigurationSteps P executable)) ([], w)
        = (Val (JObj [(''error'', JBool True),
                      (''message'', JStr ''The Font Awesome token is invalid.''),
                      (''token'', JStr []),
                      (''messages'', JArr [JStr ''Failed to configure Font Awesome.''])]), ?s1)"
    using conf by (simp add: stepConfigureFontAwesome_def bind_def lift_def ret_def)
  with quiet show ?thesis by simp
qed

text \<open>
  C5 (empty token). When the prompt resolves to \<open>{ token: "" }\<close>, the
  package-registry step returns a Result with \<open>error: true\<close> and the message
  \<open>The Font Awesome token is invalid.\<close>, and no command is run: the executable is
  never called, and the world is as the prompt left it.
\<close>

theorem empty_token_stops_font_awesome:
  assumes "\<forall>questions. prompt P questions w
             = (Promise (Val (JObj [(''token'', JStr [])])), w')"
  shows "\<exists>evs. stepConfigureFontAwesome
                 (configureFontAwesome (makeFontAwesomeConfigurationSteps P executable)) ([], w)
               = (Val (JObj [(''error'', JBool True),
                             (''message'', JStr ''The Font Awesome token is invalid.''),
                             (''token'', JStr []),
                             (''messages'', JArr [JStr ''Failed to configure Font Awesome.''])]),
                  (evs, w'))
             \<and> (\<forall>e \<in> set evs. \<not> is_exec e)"
  using assms by (rule stepConfigureFontAwesome_empty_token)

theorem empty_token_stops_font_awesome_witness:
  "\<exists>evs. stepConfigureFontAwesome
           (configureFontAwesome
              (makeFontAwesomeConfigurationSteps sample_platform (default_exec sample_platform)))
           ([], [])
         = (Val (JObj [(''error'', JBool True),
                       (''message'', JStr ''The Font Awesome token is invalid.''),
                       (''token'', JStr []),
                       (''messages'', JArr [JStr ''Failed to configure Font Awesome.''])]),
            (evs, []))
       \<and> (\<forall>e \<in> set evs. \<not> is_exec e)"
proof -
  have h: "\<forall>questions. prompt sample_platform questions []
             = (Promise (Val (JObj [(''token'', JStr [])])), [])"
    by (simp add: sample_platform_def)
  from empty_token_stops_font_awesome [OF h] show ?thesis .
qed


lemma bind_ValE:
  assumes "bind f g s = (Val r, s')"
  obtains v s1 where "f s = (Val v, s1)" and "g v s1 = (Val r, s')"
  using assms by (auto simp: bind_def split: prod.splits comp.splits)

lemma map_of_assign: "map_of (assign ps k v) k = Some v"
  by (induction ps) auto

lemma set_prop_messages:
  assumes "set_prop result ''messages'' (JArr ms) = Inr r"
    and "ms \<noteq> []" and "list_all is_text ms"
  shows "has_remediation r"
  using assms by (cases result) (auto simp: has_remediation_def map_of_assign)

lemma lift_Val: "lift x s = (Val v, s') \<Longrightarrow> x = Inr v \<and> s' = s"
  by (cases x) (auto simp: lift_def ret_def throw_def)

lemma ret_Val: "ret x s = (Val v, s') \<Longrightarrow> v = x \<and> s' = s"
  by (simp add: ret_def)

lemma stepConfigureNodeEnv_remedy:
  assumes "stepConfigureNodeEnv options executable s = (Val r, s')"
    and "truthy (get_opt r ''error'')"
  shows "has_remediation r"
  using assms unfolding stepConfigureNodeEnv_def
  by (auto elim!: bind_ValE dest!: lift_Val ret_Val set_prop_messages
           simp: get_opt_def split: if_splits)

lemma stepConfigureGoogle_remedy:
  assumes "stepConfigureGoogle options parser reader s = (Val r, s')"
    and "truthy (get_opt r ''error'')"
  shows "has_remediation r"
  using assms unfolding stepConfigureGoogle_def
  by (auto elim!: bind_ValE dest!: lift_Val ret_Val set_prop_messages
           simp: get_opt_def split: if_splits)

lemma stepConfigureFirebaseProject_remedy:
  assumes "stepConfigureFirebaseProject options executable s = (Val r, s')"
    and "truthy (get_opt r ''error'')"
  shows "has_remediation r"
  using assms unfolding stepConfigureFirebaseProject_def
  by (auto elim!: bind_ValE dest!: lift_Val ret_Val set_prop_messages
           simp: get_opt_def split: if_splits)

lemma stepConfigureFontAwesome_remedy:
  assumes "stepConfigureFontAwesome executable s = (Val r, s')"
    and "truthy (get_opt r ''error'')"
  shows "has_remediation r"
  using assms unfolding stepConfigureFontAwesome_def
  by (auto elim!: bind_ValE dest!: lift_Val ret_Val set_prop_messages
           simp: get_opt_def split: if_splits)

lemma stepFinish_succeeds:
  assumes "stepFinish s = (Val r, s')"
  shows "\<not> truthy (get_opt r ''error'')"
  using assms unfolding stepFinish_def
  by (auto elim!: bind_ValE dest!: ret_Val simp: get_opt_def)

text \<open>
  C6 (remediation completeness). Whenever a step of the two sequences returns a Result
  whose \<open>error\<close> is set, that Result carries remediation: its \<open>messages\<close> is a
  non-empty sequence of lines of text. So no failing Result lacks both \<open>message\<close>
  and \<open>messages\<close>.
\<close>

theorem failing_step_result_has_messages:
  assumes "step \<in> set (setup_steps P) \<union> set (setupFirebase_steps P)"
    and "step options s = (Val result, s')"
    and "truthy (get_opt result ''error'')"
  shows "has_remediation result"
proof -
  from assms(1) consider
      "step = (\<lambda>options. stepConfigureNodeEnv options (configureNodeEnv P))"
    | "step = (\<lambda>options. stepConfigureGoogle options
                   (\<lambda>projectName. configureGoogleProject projectName (default_exec P))
                   (getProjectName P))"
    | "step = (\<lambda>options. stepConfigureFirebaseProject options
                   (\<lambda>options. configureFirebase options
                                 (makeFirebaseConfigurationSteps P options (default_exec P))))"
    | "step = (\<lambda>options. stepConfigureFontAwesome
                   (configureFontAwesome (makeFontAwesomeConfigurationSteps P (default_exec P))))"
    | "step = (\<lambda>options. stepFinish)"
    by (auto simp: setup_steps_def setupFirebase_steps_def)
  then show ?thesis
  proof cases
    case 1
    with assms(2,3) show ?thesis by (auto dest: stepConfigureNodeEnv_remedy)
  next
    case 2
    with assms(2,3) show ?thesis by (auto dest: stepConfigureGoogle_remedy)
  next
    case 3
    with assms(2,3) show ?thesis by (auto dest: stepConfigureFirebaseProject_remedy)
  next
    case 4
    with assms(2,3) show ?thesis by (auto dest: stepConfigureFontAwesome_remedy)
  next
    case 5
    with assms(2,3) show ?thesis by (auto dest: stepFinish_succeeds)
  qed
qed

theorem failing_step_result_has_messages_witness:
  "fst ((setup_steps sample_platform ! 3) missing_key_options ([], []))
     = Val (JObj [(''error'', JBool True),
                  (''message'', JStr ''The Font Awesome token is invalid.''),
                  (''token'', JStr []),
                  (''messages'', JArr [JStr ''Failed to configure Font Awesome.''])])
   \<and> has_remediation
        (JObj [(''error'', JBool True),
               (''message'', JStr ''The Font Awesome token is invalid.''),
               (''token'', JStr []),
               (''messages'', JArr [JStr ''Failed to configure Font Awesome.''])])"
proof -
  let ?result = "JObj [(''error'', JBool True),
                  (''message'', JStr ''The Font Awesome token is invalid.''),
                  (''token'', JStr []),
                  (''messages'', JArr [JStr ''Failed to configure Font Awesome.''])]"
  have h1: "setup_steps sample_platform ! 3 \<in> set (setup_steps sample_platform)
                \<union> set (setupFirebase_steps sample_platform)"
    by (simp add: setup_steps_def)
  have p: "\<forall>questions. prompt sample_platform questions []
             = (Promise (Val (JObj [(''token'', JStr [])])), [])"
    by (simp add: sample_platform_def)
  from stepConfigureFontAwesome_empty_token [OF p, of "default_exec sample_platform"]
  obtain evs where h2: "(setup_steps sample_platform ! 3) missing_key_options ([], [])
                          = (Val ?result, (evs, []))"
    by (auto simp: setup_steps_def)
  have h3: "truthy (get_opt ?result ''error'')"
    by (simp add: get_opt_def)
  from failing_step_result_has_messages [OF h1 h2 h3] h2 show ?thesis by simp
qed


lemma inherited_not_string: "\<not> is_nonempty_string (inherited k)"
  by (simp add: inherited_def is_nonempty_string_def)

lemma getProjectName_missing:
  assumes "get_prop options ''directory'' = Inr (JStr d)"
    and "get_prop options ''projectKey'' = Inr projectKey"
    and "readFile P (path_join P d ''.firebaserc'') w = (Val contents, w')"
    and "JSON_parse P contents = Inr (JObj fb)"
    and "map_of fb ''projects'' = Some (JObj projects)"
    and "projects \<noteq> []"
    and "map_of projects (to_str projectKey) = None"
  shows "\<exists>msg evs w''. getProjectName P options (tr, w)
                          = (Val (response True msg), (tr @ evs, w''))
                       \<and> (\<forall>e \<in> set evs. \<not> is_exec e)"
proof (cases "is_nonempty_string (JStr d)")
  case False
  then have "validateOptions options = Inr (response True ''The directory option is required.'')"
    using assms(1)
    by (simp add: validateOptions_def bindE_def validateDirectory_def response_def get_opt_def
          inherited_def object_prototype_def)
  then have "getProjectName P options (tr, w)
               = (Val (response True ''The directory option is required.''), (tr @ [], w))
             \<and> (\<forall>e \<in> set ([] :: event list). \<not> is_exec e)"
    by (simp add: getProjectName_def bind_lift_Inr response_def get_opt_def ret_def)
  then show ?thesis by blast
next
  case dir: True
  show ?thesis
  proof (cases "is_nonempty_string projectKey")
    case False
    then have "validateOptions options = Inr (response True ''The projectKey option is required.'')"
      using assms(1,2) dir
      by (simp add: validateOptions_def bindE_def validateDirectory_def validateProjectKey_def
            response_def get_opt_def inherited_def object_prototype_def)
    then have "getProjectName P options (tr, w)
                 = (Val (response True ''The projectKey option is required.''), (tr @ [], w))
               \<and> (\<forall>e \<in> set ([] :: event list). \<not> is_exec e)"
      by (simp add: getProjectName_def bind_lift_Inr response_def get_opt_def ret_def)
    then show ?thesis by blast
  next
    case key: True
    have valid: "validateOptions options = Inr (response False ''The options are valid.'')"
      using assms(1,2) dir key
      by (simp add: validateOptions_def bindE_def validateDirectory_def validateProjectKey_def
            response_def get_opt_def inherited_def object_prototype_def)
    have read: "readFirebaserc P (JStr d) (tr, w)
                  = (Val (JObj [(''error'', JBool False), (''firebaserc'', contents)]),
                     (tr @ [ReadFile (path_join P d ''.firebaserc'')], w'))"
      using assms(3)
      by (simp add: readFirebaserc_def try_catch_def join_path_def bind_def lift_def ret_def
            invoke_def)
    have parsed: "parseFirebaserc P contents
                    = Inr (JObj [(''error'', JBool False), (''firebaserc'', JObj fb)])"
      using assms(4)
      by (simp add: parseFirebaserc_def parseJson_def bindE_def inherited_def object_prototype_def)
    have fb: "fb \<noteq> []" using assms(5) by auto
    have found: "findProjectsInFirebaserc (JObj fb)
                   = Inr (JObj [(''error'', JBool False), (''projects'', JObj projects)])"
      using assms(5,6) fb
      by (simp add: findProjectsInFirebaserc_def validateFirebaserc_def bindE_def
            validateParsedFirebaserc_def validateFirebasercProjects_def response_def get_opt_def
            Let_def)
    have name: "findProjectNameByKey projectKey (JObj projects)
                  = Inr (response True ''The project name is invalid.'')"
      using assms(7) inherited_not_string [of "to_str projectKey"]
      by (simp add: findProjectNameByKey_def bindE_def validateProjectName_def response_def
            get_opt_def)
    have "getProjectName P options (tr, w)
            = (Val (response True ''The project name is invalid.''),
               (tr @ [ReadFile (path_join P d ''.firebaserc'')], w'))
          \<and> (\<forall>e \<in> set [ReadFile (path_join P d ''.firebaserc'')]. \<not> is_exec e)"
      using assms(1,2) valid read parsed found name
      by (simp add: getProjectName_def readProjectNameFromFirebaserc_def
            getFirebasercProjects_def getFirebaserc_def bind_def lift_def ret_def response_def
            get_opt_def inherited_def object_prototype_def)
    then show ?thesis by blast
  qed
qed


text \<open>
  C4 (missing key). Let the registry file be read and parsed, let its \<open>projects\<close> be a
  non-empty mapping, and let \<open>options.projectKey\<close> name no entry of it. Then the
  cloud-project step returns a Result with \<open>error: true\<close>, and it runs no command:
  the executable, whichever it is, is never called.
\<close>

theorem missing_key_never_reaches_gcloud:
  assumes "get_prop options ''directory'' = Inr (JStr d)"
    and "get_prop options ''projectKey'' = Inr projectKey"
    and "readFile P (path_join P d ''.firebaserc'') w = (Val contents, w')"
    and "JSON_parse P contents = Inr (JObj fb)"
    and "map_of fb ''projects'' = Some (JObj projects)"
    and "projects \<noteq> []"
    and "map_of projects (to_str projectKey) = None"
  shows "\<exists>result evs w''.
           stepConfigureGoogle options
             (\<lambda>projectName. configureGoogleProject projectName executable)
             (getProjectName P) ([], w)
           = (Val result, (evs, w''))
         \<and> get_prop result ''error'' = Inr (JBool True)
         \<and> (\<forall>e \<in> set evs. \<not> is_exec e)"
proof -
  let ?tr = "[Log ''info'' (JArr [JStr ''Configuring Google Cloud ...''])]"
  from getProjectName_missing [OF assms, of ?tr]
  obtain msg evs w'' where
    reader: "getProjectName P options (?tr, w) = (Val (response True msg), (?tr @ evs, w''))"
    and quiet: "\<forall>e \<in> set evs. \<not> is_exec e" by blast
  have "\<exists>ms. stepConfigureGoogle options
               (\<lambda>projectName. configureGoogleProject projectName executable)
               (getProjectName P) ([], w)
             = (Val (JObj [(''error'', JBool True), (''message'', JStr msg), (''messages'', ms)]),
                (?tr @ evs
                 @ [Log ''log'' (JArr [JStr (''Setting the Google Cloud project to '' @ dq
                                             @ ''undefined'' @ dq @ '' ...'')])], w''))"
    using reader assms(2)
    by (simp add: stepConfigureGoogle_def bind_def logger_array lift_def ret_def response_def
          js_or_def inherited_def object_prototype_def)
  then obtain ms where
    "stepConfigureGoogle options
       (\<lambda>projectName. configureGoogleProject projectName executable)
       (getProjectName P) ([], w)
     = (Val (JObj [(''error'', JBool True), (''message'', JStr msg), (''messages'', ms)]),
        (?tr @ evs
         @ [Log ''log'' (JArr [JStr (''Setting the Google Cloud project to '' @ dq
                                     @ ''undefined'' @ dq @ '' ...'')])], w''))"
    by blast
  moreover have "get_prop (JObj [(''error'', JBool True), (''message'', JStr msg),
                                 (''messages'', ms)]) ''error'' = Inr (JBool True)"
    by simp
  moreover have "\<forall>e \<in> set (?tr @ evs
         @ [Log ''log'' (JArr [JStr (''Setting the Google Cloud project to '' @ dq
                                     @ ''undefined'' @ dq @ '' ...'')])]). \<not> is_exec e"
    using quiet by simp
  ultimately show ?thesis by blast
qed

theorem missing_key_never_reaches_gcloud_witness:
  "\<exists>result evs w''.
     stepConfigureGoogle
       (JObj [(''directory'', JStr ''.''), (''projectKey'', JStr ''missing-key'')])
       (\<lambda>projectName. configureGoogleProject projectName (default_exec sample_platform))
       (getProjectName sample_platform) ([], [])
     = (Val result, (evs, w''))
   \<and> get_prop result ''error'' = Inr (JBool True)
   \<and> (\<forall>e \<in> set evs. \<not> is_exec e)"
proof -
  let ?options = "JObj [(''directory'', JStr ''.''), (''projectKey'', JStr ''missing-key'')]"
  have h1: "get_prop ?options ''directory'' = Inr (JStr ''.'')" by simp
  have h2: "get_prop ?options ''projectKey'' = Inr (JStr ''missing-key'')" by simp
  have h3: "readFile sample_platform (path_join sample_platform ''.'' ''.firebaserc'') []
              = (Val (JStr ''{ projects: { default: acme-prod } }''), [])"
    by (simp add: sample_platform_def)
  have h4: "JSON_parse sample_platform (JStr ''{ projects: { default: acme-prod } }'')
              = Inr (JObj [(''projects'', JObj [(''default'', JStr ''acme-prod'')])])"
    by (simp add: sample_platform_def)
  have h5: "map_of [(''projects'', JObj [(''default'', JStr ''acme-prod'')])] ''projects''
              = Some (JObj [(''default'', JStr ''acme-prod'')])" by simp
  have h6: "[(''default'', JStr ''acme-prod'')] \<noteq> []" by simp
  have h7: "map_of [(''default'', JStr ''acme-prod'')] (to_str (JStr ''missing-key'')) = None"
    by simp
  from missing_key_never_reaches_gcloud [OF h1 h2 h3 h4 h5 h6 h7]
  show ?thesis .
qed


lemma readFirebaserc_guarded:
  assumes "readFile P (path_join P d ''.firebaserc'') w = (Exn (Error m stack), w')"
  shows "readFirebaserc P (JStr d) (tr, w)
           = (Val (JObj [(''error'', JBool True), (''message'', JStr m)]),
              (tr @ [ReadFile (path_join P d ''.firebaserc'')], w'))"
  using assms
  by (simp add: readFirebaserc_def try_catch_def join_path_def bind_def lift_def ret_def invoke_def)

lemma parseJson_guarded:
  assumes "JSON_parse P text = Inl (Error m stack)"
  shows "parseJson P text = JObj [(''error'', JBool True), (''message'', JStr m)]"
  using assms by (simp add: parseJson_def)

lemma configureFirebaseLogin_guarded:
  assumes "login P w = (Promise (Exn (Error m stack)), w')" and "m \<noteq> []"
  shows "configureFirebaseLogin P JUndefined (tr, w)
           = (Val (JObj [(''error'', JBool True), (''message'', JStr m)]), (tr @ [Login], w'))"
  using assms
  by (simp add: configureFirebaseLogin_def default_arg_def await_catch_def invoke_def js_or_def
        get_opt_def bind_def lift_def ret_def inherited_def object_prototype_def)

lemma obtainFontAwesomeToken_guarded:
  assumes "\<forall>questions. prompt P questions w = (Promise (Exn (Error m stack)), w')"
    and "m \<noteq> []"
  shows "fst (obtainFontAwesomeToken P (tr, w))
           = Val (JObj [(''error'', JBool True), (''message'', JStr m), (''token'', JUndefined)])"
  using assms
  by (simp add: obtainFontAwesomeToken_def await_catch_def invoke_def js_or_def
        inherited_def object_prototype_def Let_def bind_def lift_def ret_def logger_array)

text \<open>
  The four lemmas above are the calls made under a \<open>catch\<close>: there a failure
  becomes a Result with the message of the Error and nothing of its stack.
\<close>

text \<open>
  C8 (a failing collaborator becomes a Result) does not hold of the command executor.
  The functions that run a command await the executable with no \<open>catch\<close>. When
  \<open>spawn\<close> throws an Error with message \<open>boom\<close>, the promise of \<open>exec\<close> is
  rejected and the cloud-project step rejects with that Error instead of returning
  \<open>{ error: true, message: "boom" }\<close>; likewise \<open>setFontAwesomeRegistry\<close> with an
  executable that rejects.
\<close>

theorem rejected_command_escapes_the_step:
  "fst (hd (setupFirebase_steps
              (sample_platform\<lparr>spawn := \<lambda>command w. (Inl (Error ''boom'' ''Error: boom at spawn''), w)\<rparr>))
          (JObj [(''directory'', JStr ''.''), (''projectKey'', JStr ''default'')])
          ([], []))
     = Exn (Error ''boom'' ''Error: boom at spawn'')
   \<and> fst (setFontAwesomeRegistry
            (\<lambda>command. throw (Error ''boom'' ''Error: boom at executable''))
            ([], [] :: (string \<times> string) list))
     = Exn (Error ''boom'' ''Error: boom at executable'')"
  by (simp add: setupFirebase_steps_def stepConfigureGoogle_def getProjectName_def
        validateOptions_def validateDirectory_def validateProjectKey_def is_nonempty_string_def
        readProjectNameFromFirebaserc_def getFirebasercProjects_def getFirebaserc_def
        readFirebaserc_def join_path_def try_catch_def parseFirebaserc_def parseJson_def
        findProjectsInFirebaserc_def validateFirebaserc_def validateParsedFirebaserc_def
        validateFirebasercProjects_def findProjectNameByKey_def validateProjectName_def
        configureGoogleProject_def validateGoogleProjectName_def setGoogleCloudProject_def
        setFontAwesomeRegistry_def
        run_command_def default_exec_def exec_def default_arg_def
        sample_platform_def response_def bindE_def get_opt_def js_or_def
        bind_def lift_def ret_def throw_def emit_def invoke_def logger_array
        inherited_def object_prototype_def Let_def)

section \<open>Properties of the command line\<close>

lemma exit_requests_append: "exit_requests (xs @ ys) = exit_requests xs @ exit_requests ys"
  by (induction xs rule: exit_requests.induct) simp_all

lemma quietI: "(\<And>s r s'. f s = (r, s') \<Longrightarrow> exit_requests (fst s') = exit_requests (fst s)) \<Longrightarrow> quiet f"
  unfolding quiet_def by blast

lemma quietD: "quiet f \<Longrightarrow> f s = (r, s') \<Longrightarrow> exit_requests (fst s') = exit_requests (fst s)"
  unfolding quiet_def by blast

lemma quiet_ret: "quiet (ret v)"
  by (simp add: quiet_def ret_def)

lemma quiet_throw: "quiet (throw e)"
  by (simp add: quiet_def throw_def)

lemma quiet_lift: "quiet (lift x)"
  by (cases x) (simp_all add: lift_def quiet_ret quiet_throw)

lemma quiet_emit: "exit_requests [ev] = [] \<Longrightarrow> quiet (emit ev)"
  by (auto simp: quiet_def emit_def exit_requests_append)

lemma quiet_logger: "quiet (logger level messages)"
  by (cases messages) (simp_all add: logger_def quiet_throw quiet_emit)

lemma quiet_invoke: "exit_requests [ev] = [] \<Longrightarrow> quiet (invoke ev f)"
  by (auto simp: quiet_def invoke_def exit_requests_append split: prod.splits)

lemma quiet_bind: "quiet f \<Longrightarrow> (\<And>v. quiet (g v)) \<Longrightarrow> quiet (bind f g)"
  unfolding quiet_def bind_def
  by (auto split: prod.splits comp.splits) metis+

lemma quiet_if: "(c \<Longrightarrow> quiet f) \<Longrightarrow> (\<not> c \<Longrightarrow> quiet g) \<Longrightarrow> quiet (if c then f else g)"
  by simp

lemma quiet_try_catch: "quiet f \<Longrightarrow> (\<And>e. quiet (h e)) \<Longrightarrow> quiet (try_catch f h)"
  unfolding quiet_def try_catch_def
  by (auto split: prod.splits comp.splits) metis+

lemma quiet_await_catch: "quiet f \<Longrightarrow> (\<And>e. quiet (h e)) \<Longrightarrow> quiet (await_catch f h)"
  unfolding quiet_def await_catch_def
  by (auto split: prod.splits comp.splits call.splits) metis+

lemmas quiet_intros =
  quiet_ret quiet_throw quiet_lift quiet_logger quiet_bind quiet_if quiet_try_catch
  quiet_await_catch


lemma quiet_listen: "quiet (listen debug evs out err)"
proof (induction evs arbitrary: out err)
  case Nil
  show ?case by (simp add: quiet_def)
next
  case (Cons e evs)
  show ?case
  proof (cases e)
    case (Stdout d)
    have eq: "listen debug (Stdout d # evs) out err
            = bind (if debug then logger ''info'' (JArr [JStr ''STDOUT: '', JStr d]) else ret ())
                (\<lambda>u. listen debug evs (out @ d) err)"
      by (rule ext) (simp add: bind_def split: prod.splits comp.splits)
    show ?thesis unfolding Stdout eq by (intro quiet_intros Cons)
  next
    case (Stderr d)
    show ?thesis unfolding Stderr by (simp add: quiet_intros)
  next
    case (Exit c)
    show ?thesis unfolding Exit by (simp add: quiet_intros)
  next
    case (Close c)
    show ?thesis unfolding Close by (simp add: quiet_intros)
  qed
qed

lemma quiet_exec: "quiet (exec P command options)"
proof -
  have spawned: "\<And>d verbose. quiet (\<lambda>s. case invoke (Spawn command) (spawn P command) s of
            (Inl e, s') \<Rightarrow> (Exn e, s')
          | (Inr evs, s') \<Rightarrow>
              bind (if truthy (default_arg d verbose)
                    then logger ''log'' (JArr [JStr (''Executing `'' @ command @ ''` ...'')])
                    else ret ()) (\<lambda>_.
              listen (truthy (default_arg d verbose)) evs [] []) s')"
  proof (rule quietI)
    fix d verbose s r s'
    assume run: "(case invoke (Spawn command) (spawn P command) s of
            (Inl e, s') \<Rightarrow> (Exn e, s')
          | (Inr evs, s') \<Rightarrow>
              bind (if truthy (default_arg d verbose)
                    then logger ''log'' (JArr [JStr (''Executing `'' @ command @ ''` ...'')])
                    else ret ()) (\<lambda>_.
              listen (truthy (default_arg d verbose)) evs [] []) s') = (r, s')"
    obtain x s1 where inv: "invoke (Spawn command) (spawn P command) s = (x, s1)"
      by (cases "invoke (Spawn command) (spawn P command) s")
    have q1: "exit_requests (fst s1) = exit_requests (fst s)"
      using quietD [OF quiet_invoke inv] by simp
    show "exit_requests (fst s') = exit_requests (fst s)"
    proof (cases x)
      case (Inl e)
      with run inv q1 show ?thesis by simp
    next
      case (Inr evs)
      have q: "quiet (bind (if truthy (default_arg d verbose)
                    then logger ''log'' (JArr [JStr (''Executing `'' @ command @ ''` ...'')])
                    else ret ()) (\<lambda>_.
              listen (truthy (default_arg d verbose)) evs [] []))"
        by (intro quiet_intros quiet_listen)
      from run inv Inr have "bind (if truthy (default_arg d verbose)
                    then logger ''log'' (JArr [JStr (''Executing `'' @ command @ ''` ...'')])
                    else ret ()) (\<lambda>_.
              listen (truthy (default_arg d verbose)) evs [] []) s1 = (r, s')" by simp
      from quietD [OF q this] q1 show ?thesis by simp
    qed
  qed
  show ?thesis unfolding exec_def by (intro quiet_intros spawned)
qed

lemma quiet_run_command: "(\<And>c. quiet (executable c)) \<Longrightarrow> quiet (run_command executable command)"
  unfolding run_command_def by (intro quiet_intros quiet_emit) simp_all

lemma quiet_default_exec: "quiet (default_exec P command)"
  by (simp add: default_exec_def quiet_exec)

lemma quiet_configureGoogleProject:
  "(\<And>c. quiet (executable c)) \<Longrightarrow> quiet (configureGoogleProject projectName executable)"
  unfolding configureGoogleProject_def setGoogleCloudProject_def
  by (intro quiet_intros quiet_run_command) simp_all

lemma quiet_getProjectName: "quiet (getProjectName P options)"
  unfolding getProjectName_def readProjectNameFromFirebaserc_def getFirebasercProjects_def
    getFirebaserc_def readFirebaserc_def
  by (intro quiet_intros quiet_invoke) simp_all

lemma quiet_configureFirebase:
  "quiet (configureFirebase options (makeFirebaseConfigurationSteps P options (default_exec P)))"
proof -
  have steps: "\<And>fnStep state. fnStep \<in> set (makeFirebaseConfigurationSteps P options (default_exec P))
                 \<Longrightarrow> quiet (fnStep state)"
    unfolding makeFirebaseConfigurationSteps_def
    by (auto simp: configureFirebaseWebFrameworks_def configureFirebaseLogin_def
          configureFirebaseProject_def
        intro!: quiet_intros quiet_run_command quiet_invoke quiet_default_exec)
  have red: "\<And>xs state. set xs \<subseteq> set (makeFirebaseConfigurationSteps P options (default_exec P))
               \<Longrightarrow> quiet (reduce_async firebaseReducer xs state)"
  proof -
    fix xs :: "(jsval \<Rightarrow> (jsval, 'a) m) list" and state
    assume "set xs \<subseteq> set (makeFirebaseConfigurationSteps P options (default_exec P))"
    then show "quiet (reduce_async firebaseReducer xs state)"
    proof (induction xs arbitrary: state)
      case Nil
      show ?case by (simp add: quiet_def)
    next
      case (Cons x xs)
      have eq: "reduce_async firebaseReducer (x # xs) state
                  = bind (firebaseReducer state x) (reduce_async firebaseReducer xs)"
        by (rule ext) (simp add: bind_def split: prod.splits comp.splits)
      have "quiet (firebaseReducer state x)"
        unfolding firebaseReducer_def using Cons.prems steps
        by (intro quiet_intros) simp_all
      then show ?case unfolding eq using Cons by (intro quiet_bind) simp_all
    qed
  qed
  show ?thesis unfolding configureFirebase_def by (rule red) simp
qed

lemma quiet_reduce_on:
  "(\<And>x state. x \<in> set xs \<Longrightarrow> quiet (f state x)) \<Longrightarrow> quiet (reduce_async f xs state)"
proof (induction xs arbitrary: state)
  case Nil
  show ?case by (simp add: quiet_def)
next
  case (Cons x xs)
  have eq: "reduce_async f (x # xs) state = bind (f state x) (reduce_async f xs)"
    by (rule ext) (simp add: bind_def split: prod.splits comp.splits)
  show ?case unfolding eq using Cons by (intro quiet_bind) simp_all
qed

lemma quiet_configureFontAwesome:
  "quiet (configureFontAwesome (makeFontAwesomeConfigurationSteps P (default_exec P)))"
proof -
  have steps: "\<And>step state. step \<in> set (makeFontAwesomeConfigurationSteps P (default_exec P))
                 \<Longrightarrow> quiet (step state)"
    unfolding makeFontAwesomeConfigurationSteps_def
    by (auto simp: obtainFontAwesomeToken_def setFontAwesomeRegistry_def setFontAwesomeToken_def
          Let_def
        intro!: quiet_intros quiet_run_command quiet_invoke quiet_default_exec)
  have "\<And>step state. step \<in> set (makeFontAwesomeConfigurationSteps P (default_exec P))
          \<Longrightarrow> quiet (fontAwesomeReducer state step)"
    unfolding fontAwesomeReducer_def using steps by (intro quiet_intros) simp_all
  then show ?thesis
    unfolding configureFontAwesome_def by (intro quiet_intros quiet_reduce_on) simp_all
qed

lemma quiet_configureNodeEnv: "quiet (configureNodeEnv P env)"
  by (auto simp: quiet_def configureNodeEnv_def Let_def exit_requests_append)

lemma quiet_stepConfigureNodeEnv:
  "(\<And>env. quiet (executable env)) \<Longrightarrow> quiet (stepConfigureNodeEnv options executable)"
  unfolding stepConfigureNodeEnv_def by (intro quiet_intros) simp_all

lemma quiet_stepConfigureGoogle:
  "(\<And>n. quiet (parser n)) \<Longrightarrow> (\<And>n. quiet (reader n))
     \<Longrightarrow> quiet (stepConfigureGoogle options parser reader)"
  unfolding stepConfigureGoogle_def by (intro quiet_intros) simp_all

lemma quiet_stepConfigureFirebaseProject:
  "(\<And>n. quiet (executable n)) \<Longrightarrow> quiet (stepConfigureFirebaseProject options executable)"
  unfolding stepConfigureFirebaseProject_def by (intro quiet_intros) simp_all

lemma quiet_stepConfigureFontAwesome:
  "quiet executable \<Longrightarrow> quiet (stepConfigureFontAwesome executable)"
  unfolding stepConfigureFontAwesome_def by (intro quiet_intros) simp_all

lemma quiet_stepFinish: "quiet stepFinish"
  unfolding stepFinish_def by (intro quiet_intros)

lemma quiet_sequences:
  assumes "step \<in> set (setup_steps P) \<union> set (setupFirebase_steps P)"
  shows "quiet (step options)"
  using assms
  by (auto simp: setup_steps_def setupFirebase_steps_def
        intro!: quiet_stepConfigureNodeEnv quiet_configureNodeEnv quiet_stepConfigureGoogle
          quiet_configureGoogleProject quiet_default_exec quiet_getProjectName
          quiet_stepConfigureFirebaseProject quiet_configureFirebase
          quiet_stepConfigureFontAwesome quiet_configureFontAwesome quiet_stepFinish)

lemma quiet_report: "quiet (report result)"
  unfolding report_def by (intro quiet_intros)

lemma quiet_runSteps:
  assumes "\<forall>step \<in> set steps. quiet (step options)"
  shows "exit_requests (fst (final (runSteps steps options s))) = exit_requests (fst s)"
  using assms
proof (induction steps arbitrary: s)
  case Nil
  show ?case by simp
next
  case (Cons step steps)
  obtain x s1 where st: "step options s = (x, s1)" by (cases "step options s")
  have "quiet (step options)" using Cons.prems by simp
  from quietD [OF this st] have q1: "exit_requests (fst s1) = exit_requests (fst s)" .
  show ?case
  proof (cases x)
    case (Val result)
    obtain y s2 where rep: "report result s1 = (y, s2)" by (cases "report result s1")
    have q2: "exit_requests (fst s2) = exit_requests (fst s1)"
      using quietD [OF quiet_report rep] .
    have ih: "exit_requests (fst (final (runSteps steps options s2))) = exit_requests (fst s2)"
      using Cons.IH [of s2] Cons.prems by simp
    show ?thesis using st Val rep q1 q2 ih
      by (cases y) (auto simp: Let_def)
  next
    case (Exn e)
    then show ?thesis using st q1 by simp
  next
    case Hang
    then show ?thesis using st q1 by simp
  qed
qed

lemma quiet_run_sequence:
  assumes "\<forall>step \<in> set allSteps. quiet (step (default_arg options (JObj [])))"
  shows "exit_requests (fst (final (run_sequence banner allSteps options s)))
           = exit_requests (fst s)"
  using quiet_runSteps [OF assms]
  by (simp add: run_sequence_def logger_array exit_requests_append)

lemma sequences_request_no_exit:
  assumes "sub = Setup \<or> sub = Firebase"
  shows "exit_requests (fst (final (action P sub options ([], w)))) = []"
proof -
  have a: "\<forall>step \<in> set (setup_steps P). quiet (step (default_arg options (JObj [])))"
    using quiet_sequences [of _ P] by blast
  have b: "\<forall>step \<in> set (setupFirebase_steps P). quiet (step (default_arg options (JObj [])))"
    using quiet_sequences [of _ P] by blast
  from assms show ?thesis
  proof
    assume "sub = Setup"
    then show ?thesis
      using quiet_run_sequence [OF a, of "''Setting up the environment ...''" "([], w)"]
      by (simp add: action_def setup_full_def)
  next
    assume "sub = Firebase"
    then show ?thesis
      using quiet_run_sequence [OF b, of "''Configuring Firebase ...''" "([], w)"]
      by (simp add: action_def setupFirebase_def)
  qed
qed

lemmas registry_chain =
  stepConfigureGoogle_def getProjectName_def
  validateOptions_def validateDirectory_def validateProjectKey_def is_nonempty_string_def
  readProjectNameFromFirebaserc_def getFirebasercProjects_def getFirebaserc_def
  readFirebaserc_def join_path_def try_catch_def parseFirebaserc_def parseJson_def
  findProjectsInFirebaserc_def validateFirebaserc_def validateParsedFirebaserc_def
  validateFirebasercProjects_def findProjectNameByKey_def validateProjectName_def
  response_def bindE_def get_opt_def js_or_def
  bind_def lift_def ret_def throw_def emit_def invoke_def logger_array
  inherited_def object_prototype_def Let_def

lemma sample_setup_run:
  "\<exists>result tr w.
     outcome (action sample_platform Setup missing_key_options ([], [])) = Val result
     \<and> get_prop result ''error'' = Inr (JBool True)
     \<and> final (action sample_platform Setup missing_key_options ([], [])) = (tr, w)
     \<and> exit_requests tr = []"
  by (simp add: action_def setup_full_def run_sequence_def setup_steps_def
        missing_key_options_def stepConfigureNodeEnv_def configureNodeEnv_def
        sample_platform_def default_arg_def report_def strict_eq_def registry_chain)

lemma sample_firebase_run:
  "\<exists>result.
     outcome (action sample_platform Firebase missing_key_options ([], [])) = Val result
     \<and> get_prop result ''error'' = Inr (JBool True)"
  by (simp add: action_def setupFirebase_def run_sequence_def setupFirebase_steps_def
        missing_key_options_def sample_platform_def default_arg_def report_def registry_chain)

text \<open>
  C3, as amended (exit status). Whenever the sequence of the \<open>setup\<close> or the
  \<open>firebase\<close> subcommand returns a Result, the process ends with status 0, whether
  the Result has \<open>error: true\<close> or not: nothing in the two sequences, their steps or
  the runner ends the process or asks for a status.
\<close>

theorem exit_code_ignores_result:
  assumes "sub = Setup \<or> sub = Firebase"
    and "outcome (action P sub options ([], w)) = Val result"
  shows "exit_code P sub options ([], w) = Some 0"
  using sequences_request_no_exit [OF assms(1), of P options w] assms(2)
  by (simp add: exit_code_def)

theorem exit_code_ignores_result_witness:
  "exit_code sample_platform Firebase missing_key_options ([], []) = Some 0
   \<and> ends_in_error (action sample_platform Firebase missing_key_options ([], []))"
proof -
  from sample_firebase_run obtain result where
    out: "outcome (action sample_platform Firebase missing_key_options ([], [])) = Val result"
    and err: "get_prop result ''error'' = Inr (JBool True)" by blast
  have sub: "Firebase = Setup \<or> Firebase = Firebase" by simp
  from exit_code_ignores_result [OF sub out] out err show ?thesis
    by (simp add: ends_in_error_def)
qed

text \<open>
  C3, as stated, fails: when the registry file lacks the project key, the full setup
  returns a Result with \<open>error: true\<close> and the process still ends with status 0.
\<close>

theorem failed_run_exits_zero:
  "ends_in_error (action sample_platform Setup missing_key_options ([], []))
   \<and> exit_code sample_platform Setup missing_key_options ([], []) = Some 0"
proof -
  from sample_setup_run obtain result tr w where
    "outcome (action sample_platform Setup missing_key_options ([], [])) = Val result"
    and "get_prop result ''error'' = Inr (JBool True)"
    and "final (action sample_platform Setup missing_key_options ([], [])) = (tr, w)"
    and "exit_requests tr = []" by blast
  then show ?thesis by (simp add: ends_in_error_def exit_code_def)
qed

lemma help_exits_zero: "exit_code P Help options ([], w) = Some 0"
  by (simp add: exit_code_def action_def commander_help_def)

section \<open>Properties of the earlier runner\<close>

text \<open>
  The runner of \<open>src/ops.js\<close> consumes the array in the same way and agrees with
  \<open>runSteps\<close> while every step succeeds. On a failure it differs: it passes
  \<open>result.messages\<close> to the logger unconditionally, so a failing Result without
  \<open>messages\<close> makes it throw instead of returning the Result.
\<close>

lemma report_draft_ok: "has_error v False \<Longrightarrow> report_draft v s = (Val False, s)"
  by (auto simp: has_error_def report_draft_def bind_def lift_def ret_def)

lemma runSteps_draft_partition:
  "map fst (calls (runSteps_draft steps options s)) @ remaining (runSteps_draft steps options s)
     = steps"
  by (induction steps arbitrary: s) (auto split: prod.splits comp.splits simp: Let_def)

lemma runSteps_draft_all_ok:
  assumes "steps \<noteq> []"
    and "\<forall>p \<in> set (trail steps options s). \<exists>v. fst p = Val v \<and> has_error v False"
  shows "runSteps_draft steps options s = runSteps steps options s"
  using assms
proof (induction steps arbitrary: s)
  case Nil
  then show ?case by simp
next
  case (Cons step steps)
  obtain r s1 where st: "step options s = (r, s1)" by (cases "step options s")
  with Cons.prems obtain v where r: "r = Val v" and ok: "has_error v False" by auto
  have rep: "report v s1 = (Val False, s1)" "report_draft v s1 = (Val False, s1)"
    using ok by (simp_all add: report_ok report_draft_ok)
  show ?case
  proof (cases "steps = []")
    case True
    then show ?thesis using st r rep by simp
  next
    case False
    have "\<forall>p \<in> set (trail steps options s1). \<exists>v. fst p = Val v \<and> has_error v False"
      using Cons.prems st by simp
    from Cons.IH [OF False this] show ?thesis using st r rep False by simp
  qed
qed

lemma runSteps_draft_needs_messages:
  "outcome (runSteps_draft [sample_failing] JNull ([], 0))
     = Exn (TypeError ''messages is not iterable'')"
  by (simp add: sample_failing_def report_draft_def logger_def bind_def lift_def ret_def throw_def
        inherited_def object_prototype_def)


end
